theory Spec2Isabelle
  imports Complex_Main
begin

section \<open>Platform and data model\<close>

text \<open>
  The simulator is JavaScript. What the platform supplies (the local time zone, the
  \<^verbatim>\<open>Date\<close> parser, \<^verbatim>\<open>Math.random\<close>, the outcome of each Firestore write, the printing of
  numbers) is collected in the record \<open>entorno\<close> and passed to every function that uses it.
  A valid \<^verbatim>\<open>Date\<close> is its time value in milliseconds since the epoch; \<^verbatim>\<open>Invalid Date\<close>
  is \<open>None\<close> where the parser can produce it.

  A JavaScript number is a binary64 value, taken here as the real number it denotes;
  values that are not finite (\<^verbatim>\<open>Infinity\<close>, \<^verbatim>\<open>NaN\<close>) are outside the model.  The result of
  \<^verbatim>\<open>*\<close>, \<^verbatim>\<open>+\<close> and \<^verbatim>\<open>-\<close> is the exact result rounded to binary64.  The rounding function
  belongs to the platform.  All that is used of it is that it is monotone and returns
  \<open>-1\<close>, \<open>0\<close> and \<open>1\<close> unchanged, which round-to-nearest does; \<open>exacto\<close> is the rounding of a
  platform that computes without error.
\<close>

typedef redondeo = "{r :: real \<Rightarrow> real. mono r \<and> r 0 = 0 \<and> r 1 = 1 \<and> r (- 1) = - 1}"
  by (rule exI [of _ "\<lambda>x. x"]) (simp add: mono_def)

setup_lifting type_definition_redondeo

lift_definition redondear :: "redondeo \<Rightarrow> real \<Rightarrow> real" is "\<lambda>r. r" .

lift_definition exacto :: redondeo is "\<lambda>x. x"
  by (simp add: mono_def)

text \<open>
  Round-to-nearest, ties to even, as binary64 has it: a value is rounded to a multiple of
  the spacing of its binade, \<open>2^(e - 52)\<close> with \<open>2^e\<close> the power of two at or below its
  magnitude, and \<open>2^(-1074)\<close> below \<open>2^(-1022)\<close>.  \<open>rne\<close> rounds to the nearest integer, to
  the even one on a tie.  There is no largest value: where binary64 overflows, the
  function goes on with the same rule.
\<close>

definition rne :: "real \<Rightarrow> int" where
  "rne x =
     (let f = \<lfloor>x\<rfloor>
      in if x - of_int f < 1 / 2 then f
         else if 1 / 2 < x - of_int f then f + 1
         else if even f then f else f + 1)"

definition exponente :: "real \<Rightarrow> int" where
  "exponente x = max (- 1022) \<lfloor>log 2 x\<rfloor>"

definition cuanto :: "real \<Rightarrow> real" where
  "cuanto x = 2 powr (of_int (exponente x) - 52)"

definition redondeo_pos :: "real \<Rightarrow> real" where
  "redondeo_pos x = of_int (rne (x / cuanto x)) * cuanto x"

definition redondeo_binary64 :: "real \<Rightarrow> real" where
  "redondeo_binary64 x =
     (if x = 0 then 0 else if 0 < x then redondeo_pos x else - redondeo_pos (- x))"

definition binario64 :: redondeo where
  "binario64 = Abs_redondeo redondeo_binary64"

record entorno =
  binary64 :: redondeo
  zona :: "int \<Rightarrow> int"
  Date_parse :: "string \<Rightarrow> int option"
  Math_random :: "nat \<Rightarrow> real"
  rechaza :: "nat \<Rightarrow> bool"
  Number_toString :: "real \<Rightarrow> string"

text \<open>
  \<open>zona ent t\<close> is the offset of local time from UTC at the instant \<open>t\<close>, in ms.
  \<open>Math_random ent k\<close> is the value returned by the \<open>k\<close>-th call of \<^verbatim>\<open>Math.random()\<close>
  (counting from 0); the functions below thread the number of calls made so far.
  \<open>rechaza ent k\<close> says whether the \<open>k\<close>-th call of \<^verbatim>\<open>addDoc\<close> rejects.
\<close>

text \<open>The three arithmetic operations the generator uses.\<close>

definition producto :: "entorno \<Rightarrow> real \<Rightarrow> real \<Rightarrow> real" where
  "producto ent x y = redondear (binary64 ent) (x * y)"

definition suma :: "entorno \<Rightarrow> real \<Rightarrow> real \<Rightarrow> real" where
  "suma ent x y = redondear (binary64 ent) (x + y)"

definition resta :: "entorno \<Rightarrow> real \<Rightarrow> real \<Rightarrow> real" where
  "resta ent x y = redondear (binary64 ent) (x - y)"

definition getHours :: "entorno \<Rightarrow> int \<Rightarrow> int" where
  "getHours ent t = ((t + zona ent t) div 3600000) mod 24"

definition getDay :: "entorno \<Rightarrow> int \<Rightarrow> int" where
  "getDay ent t = ((t + zona ent t) div 86400000 + 4) mod 7"

record Ventana =
  inicio :: int
  fin :: int

record HORARIOS =
  MANANA :: Ventana
  TARDE :: Ventana

record CONFIG =
  INTERVALO_MS :: int
  FECHA_INICIO :: "string option"
  FECHA_FIN :: "string option"
  INCREMENTO_TIEMPO_MS :: int
  SIMULAR_PICOS :: bool
  HORARIOS_PICO :: HORARIOS
  FACTOR_PICO :: real
  FACTOR_FIN_SEMANA :: real
  VARIACION_CONSUMO :: real
  PROBABILIDAD_ERROR :: real
  BATCH_SIZE :: int
  DELAY_ENTRE_LOTES :: int

text \<open>The values of \<^verbatim>\<open>config/config.js\<close> as shipped.\<close>

definition CONFIG_inicial :: CONFIG where
  "CONFIG_inicial =
     \<lparr> INTERVALO_MS = 10000,
       FECHA_INICIO = Some ''2025-01-01 00:00:00'',
       FECHA_FIN = None,
       INCREMENTO_TIEMPO_MS = 3600000,
       SIMULAR_PICOS = False,
       HORARIOS_PICO = \<lparr> MANANA = \<lparr> inicio = 8, fin = 12 \<rparr>,
                         TARDE = \<lparr> inicio = 14, fin = 18 \<rparr> \<rparr>,
       FACTOR_PICO = 3 / 2,
       FACTOR_FIN_SEMANA = 3 / 10,
       VARIACION_CONSUMO = 1 / 5,
       PROBABILIDAD_ERROR = 1 / 50,
       BATCH_SIZE = 10,
       DELAY_ENTRE_LOTES = 1000 \<rparr>"

text \<open>
  A monitoring point as the generator and the cycles read it, with its fields at the
  types documented in \<^verbatim>\<open>obtenerPuntos.js\<close>.  A reading as \<^verbatim>\<open>generarLectura\<close> returns it.
\<close>

record Punto =
  docId :: string
  punto_id :: string
  nombre :: string
  activo :: bool
  consumo_base_kwh :: real
  potencia_base_w :: real

record Lectura =
  id_punto :: string
  estado :: string
  consumo_kwh :: real
  fecha :: int

section \<open>The reading generator (\<^verbatim>\<open>src/generador.js\<close>)\<close>

text \<open>\<^verbatim>\<open>s.replace(" ", "T")\<close>: a string pattern replaces the first occurrence only.\<close>

fun replace_espacio :: "string \<Rightarrow> string" where
  "replace_espacio [] = []"
| "replace_espacio (c # cs) =
     (if c = CHR '' '' then CHR ''T'' # cs else c # replace_espacio cs)"

text \<open>
  \<^verbatim>\<open>x.toFixed(2)\<close> for a magnitude below \<open>10^21\<close>: the sign is set aside and the integer
  \<open>n\<close> with \<open>n / 100\<close> nearest to the magnitude is taken, the larger one on a tie; the
  string printed denotes \<open>n / 100\<close>.
\<close>

definition decimales2 :: "real \<Rightarrow> real" where
  "decimales2 x =
     (if x < 0 then - (of_int \<lfloor>(- x) * 100 + 1 / 2\<rfloor> / 100)
      else of_int \<lfloor>x * 100 + 1 / 2\<rfloor> / 100)"

text \<open>
  \<^verbatim>\<open>+x.toFixed(2)\<close>: the string is read back as a number, that is, rounded to binary64.
  A magnitude of \<open>10^21\<close> or more is printed by \<^verbatim>\<open>ToString\<close> and read back unchanged.
\<close>

definition toFixed2 :: "entorno \<Rightarrow> real \<Rightarrow> real" where
  "toFixed2 ent x =
     (if 10 ^ 21 \<le> \<bar>x\<bar> then x else redondear (binary64 ent) (decimales2 x))"

definition deberiaaplicarPico :: "entorno \<Rightarrow> CONFIG \<Rightarrow> int \<Rightarrow> bool" where
  "deberiaaplicarPico ent cfg fecha_ev =
     (case FECHA_INICIO cfg of
        None \<Rightarrow> True
      | Some s \<Rightarrow>
          if s = [] then True
          else (case Date_parse ent (replace_espacio s) of
                  None \<Rightarrow> False
                | Some fechaInicio \<Rightarrow> fecha_ev \<ge> fechaInicio))"

definition esHorarioPico :: "CONFIG \<Rightarrow> int \<Rightarrow> bool" where
  "esHorarioPico cfg hora =
     (let enPicoManana = (hora \<ge> inicio (MANANA (HORARIOS_PICO cfg))
                           \<and> hora < fin (MANANA (HORARIOS_PICO cfg)));
          enPicoTarde = (hora \<ge> inicio (TARDE (HORARIOS_PICO cfg))
                           \<and> hora < fin (TARDE (HORARIOS_PICO cfg)))
      in enPicoManana \<or> enPicoTarde)"

text \<open>
  \<open>generarLectura ent cfg punto fechaSimulada n\<close> returns the reading and the number of
  \<^verbatim>\<open>Math.random()\<close> calls made once it has returned, \<open>n\<close> being the number made before.
\<close>

definition generarLectura ::
    "entorno \<Rightarrow> CONFIG \<Rightarrow> Punto \<Rightarrow> int \<Rightarrow> nat \<Rightarrow> Lectura \<times> nat" where
  "generarLectura ent cfg punto fechaSimulada n =
     (if \<not> activo punto then
        (\<lparr> id_punto = punto_id punto, estado = ''inactivo'', consumo_kwh = 0,
           fecha = fechaSimulada \<rparr>, n)
      else if Math_random ent n < PROBABILIDAD_ERROR cfg then
        (\<lparr> id_punto = punto_id punto, estado = ''error'', consumo_kwh = 0,
           fecha = fechaSimulada \<rparr>, n + 1)
      else
        let consumo0 = consumo_base_kwh punto;
            consumo1 =
              (if SIMULAR_PICOS cfg \<and> deberiaaplicarPico ent cfg fechaSimulada then
                 (let hora = getHours ent fechaSimulada
                  in if esHorarioPico cfg hora then producto ent consumo0 (FACTOR_PICO cfg)
                     else consumo0)
               else consumo0);
            diaSemana = getDay ent fechaSimulada;
            esFinDeSemana = (diaSemana = 0 \<or> diaSemana = 6);
            consumo2 = (if esFinDeSemana then producto ent consumo1 (FACTOR_FIN_SEMANA cfg)
                        else consumo1);
            variacion =
              suma ent 1
                (producto ent (resta ent (producto ent (Math_random ent (n + 1)) 2) 1)
                   (VARIACION_CONSUMO cfg));
            consumo3 = producto ent consumo2 variacion
        in (\<lparr> id_punto = punto_id punto, estado = ''activo'',
              consumo_kwh = toFixed2 ent consumo3, fecha = fechaSimulada \<rparr>, n + 2))"

text \<open>
  Concrete platform and points used to run the model.  The platform computes exactly;
  \<open>config_diadica\<close> and \<open>punto_N3\<close> hold values with which every intermediate result is a
  binary64 number, so that binary64 arithmetic gives the same readings.
\<close>

definition entorno_prueba :: entorno where
  "entorno_prueba =
     \<lparr> binary64 = exacto,
       zona = (\<lambda>t. - 21600000),
       Date_parse = (\<lambda>s. if s = ''2025-01-01T00:00:00'' then Some 1735711200000
                          else if s = ''2025-01-01T03:00:00'' then Some 1735722000000
                          else None),
       Math_random = (\<lambda>k. if even k then 1 / 2 else 3 / 4),
       rechaza = (\<lambda>k. False),
       Number_toString = (\<lambda>r. ''?'') \<rparr>"

definition punto_N1 :: Punto where
  "punto_N1 = \<lparr> docId = ''d1'', punto_id = ''N1'', nombre = ''Auditorio Principal'',
                 activo = True, consumo_base_kwh = 31 / 2, potencia_base_w = 1100 \<rparr>"

definition punto_N2 :: Punto where
  "punto_N2 = \<lparr> docId = ''d2'', punto_id = ''N2'', nombre = ''Biblioteca'',
                 activo = False, consumo_base_kwh = 8, potencia_base_w = 600 \<rparr>"

definition punto_N3 :: Punto where
  "punto_N3 = \<lparr> docId = ''d3'', punto_id = ''N3'', nombre = ''Laboratorio'',
                 activo = True, consumo_base_kwh = 16, potencia_base_w = 1024 \<rparr>"

definition config_diadica :: CONFIG where
  "config_diadica =
     CONFIG_inicial \<lparr> SIMULAR_PICOS := True, FACTOR_FIN_SEMANA := 1 / 4,
                      VARIACION_CONSUMO := 1 / 4, PROBABILIDAD_ERROR := 1 / 64 \<rparr>"

text \<open>
  The shipped configuration with peaks simulated, its decimal literals at their binary64
  values, and a platform with binary64 arithmetic.
\<close>

definition CONFIG_binary64 :: CONFIG where
  "CONFIG_binary64 =
     CONFIG_inicial \<lparr> SIMULAR_PICOS := True,
                      FACTOR_FIN_SEMANA := 5404319552844595 / 18014398509481984,
                      VARIACION_CONSUMO := 3602879701896397 / 18014398509481984,
                      PROBABILIDAD_ERROR := 5764607523034235 / 288230376151711744 \<rparr>"

definition entorno_binary64 :: entorno where
  "entorno_binary64 =
     entorno_prueba \<lparr> binary64 := binario64,
                      Math_random := (\<lambda>k. if even k then 3 / 4 else 1 / 2) \<rparr>"

definition punto_N4 :: Punto where
  "punto_N4 = \<lparr> docId = ''d4'', punto_id = ''N4'', nombre = ''Cafeteria'',
                 activo = True, consumo_base_kwh = 7 / 4, potencia_base_w = 300 \<rparr>"

definition entorno_binary64_bajo :: entorno where
  "entorno_binary64_bajo =
     entorno_binary64 \<lparr> Math_random := (\<lambda>k. if even k then 3 / 4 else 1 / 4) \<rparr>"


definition config_error_siempre :: CONFIG where
  "config_error_siempre = CONFIG_inicial \<lparr> PROBABILIDAD_ERROR := 1 \<rparr>"

definition config_error_nunca :: CONFIG where
  "config_error_nunca = CONFIG_inicial \<lparr> PROBABILIDAD_ERROR := 0 \<rparr>"




section \<open>Loading the points (\<^verbatim>\<open>src/obtenerPuntos.js\<close>)\<close>

text \<open>
  A Firestore document is its id and its field map; a field holds any primitive
  JavaScript value, and reading a field that is absent gives \<^verbatim>\<open>undefined\<close>.  The object
  built for each document is kept as the list of its properties, in the order written.
\<close>

datatype jsval = JUndefined | JNull | JBool bool | JNum real | JNaN | JStr string

fun truthy :: "jsval \<Rightarrow> bool" where
  "truthy JUndefined = False"
| "truthy JNull = False"
| "truthy (JBool b) = b"
| "truthy (JNum r) = (r \<noteq> 0)"
| "truthy JNaN = False"
| "truthy (JStr s) = (s \<noteq> [])"

text \<open>\<^verbatim>\<open>a || b\<close> and \<^verbatim>\<open>a ?? b\<close>.\<close>

definition js_or :: "jsval \<Rightarrow> jsval \<Rightarrow> jsval" where
  "js_or a b = (if truthy a then a else b)"

definition js_nullish :: "jsval \<Rightarrow> jsval \<Rightarrow> jsval" where
  "js_nullish a b = (if a = JUndefined \<or> a = JNull then b else a)"

text \<open>The conversion a template literal applies to an interpolated value.\<close>

fun ToString :: "entorno \<Rightarrow> jsval \<Rightarrow> string" where
  "ToString ent JUndefined = ''undefined''"
| "ToString ent JNull = ''null''"
| "ToString ent (JBool b) = (if b then ''true'' else ''false'')"
| "ToString ent (JNum r) = Number_toString ent r"
| "ToString ent JNaN = ''NaN''"
| "ToString ent (JStr s) = s"

type_synonym docSnap = "string \<times> (string \<rightharpoonup> jsval)"

definition campo :: "(string \<rightharpoonup> jsval) \<Rightarrow> string \<Rightarrow> jsval" where
  "campo data k = (case data k of None \<Rightarrow> JUndefined | Some v \<Rightarrow> v)"

definition propiedad :: "(string \<times> jsval) list \<Rightarrow> string \<Rightarrow> jsval" where
  "propiedad obj k = (case map_of obj k of None \<Rightarrow> JUndefined | Some v \<Rightarrow> v)"

text \<open>The callback of \<^verbatim>\<open>snap.docs.map\<close> in \<^verbatim>\<open>obtenerPuntos\<close>.\<close>

definition mapear_doc :: "entorno \<Rightarrow> docSnap \<Rightarrow> (string \<times> jsval) list" where
  "mapear_doc ent docSnap =
     (let data = snd docSnap in
      [ (''docId'', JStr (fst docSnap)),
        (''id'', campo data ''id''),
        (''nombre'', js_or (campo data ''nombre'')
                           (JStr (''Punto '' @ ToString ent (campo data ''id'')))),
        (''descripcion'', js_or (campo data ''descripcion'') (JStr [])),
        (''ubicacion'', js_or (campo data ''ubicacion'') (JStr [])),
        (''activo'', js_nullish (campo data ''activo'') (JBool True)),
        (''consumo_base_kwh'', js_or (campo data ''consumo_base_kwh'') (JNum 5)),
        (''potencia_base_w'', js_or (campo data ''potencia_base_w'') (JNum 500)) ])"

definition obtenerPuntos :: "entorno \<Rightarrow> docSnap list \<Rightarrow> (string \<times> jsval) list list" where
  "obtenerPuntos ent docs = map (mapear_doc ent) docs"

text \<open>Being a number greater than zero, as the data model asks of the two base values.\<close>

fun numero_positivo :: "jsval \<Rightarrow> bool" where
  "numero_positivo (JNum r) = (0 < r)"
| "numero_positivo v = False"

definition doc_negativo :: docSnap where
  "doc_negativo = (''d9'', [''id'' \<mapsto> JStr ''N9'', ''consumo_base_kwh'' \<mapsto> JNum (- 3)])"

definition doc_cero :: docSnap where
  "doc_cero = (''d7'', [''id'' \<mapsto> JStr ''N7'', ''consumo_base_kwh'' \<mapsto> JNum 0])"

section \<open>Persisting a reading (\<^verbatim>\<open>src/envio.js\<close>)\<close>

text \<open>
  What a run changes outside itself: the number of \<^verbatim>\<open>Math.random()\<close> calls made, the
  number of \<^verbatim>\<open>addDoc\<close> calls made, the documents written to the collection
  \<^verbatim>\<open>lecturas\<close> (oldest first), and the lines reported on the console or the log channel.
\<close>

datatype linea = LineaLote nat int | LineaLectura Lectura | LineaError string | LineaPausa

record Mundo =
  sorteos :: nat
  envios :: nat
  almacen :: "Lectura list"
  consola :: "linea list"

text \<open>\<open>enviarLectura\<close> returns \<open>True\<close> when the promise resolves, \<open>False\<close> when it rejects.\<close>

definition enviarLectura :: "entorno \<Rightarrow> Lectura \<Rightarrow> Mundo \<Rightarrow> bool \<times> Mundo" where
  "enviarLectura ent lectura w =
     (if rechaza ent (envios w) then (False, w \<lparr> envios := envios w + 1 \<rparr>)
      else (True, w \<lparr> envios := envios w + 1, almacen := almacen w @ [lectura] \<rparr>))"

definition mundo_inicial :: Mundo where
  "mundo_inicial = \<lparr> sorteos = 0, envios = 0, almacen = [], consola = [] \<rparr>"

section \<open>The command-line orchestrator (\<^verbatim>\<open>index.js\<close>)\<close>

text \<open>
  \<^verbatim>\<open>parsearFecha\<close> of \<^verbatim>\<open>config/config.js\<close>: \<open>None\<close> is \<^verbatim>\<open>null\<close>, \<open>Some None\<close> is an
  \<^verbatim>\<open>Invalid Date\<close> object, \<open>Some (Some t)\<close> a valid date.
\<close>

definition parsearFecha_config :: "entorno \<Rightarrow> string option \<Rightarrow> int option option" where
  "parsearFecha_config ent fechaStr =
     (case fechaStr of
        None \<Rightarrow> None
      | Some s \<Rightarrow> if s = [] then None else Some (Date_parse ent (replace_espacio s)))"

text \<open>\<^verbatim>\<open>cicloLecturas\<close>: each point inside its own \<^verbatim>\<open>try/catch\<close>.\<close>

fun cicloLecturas :: "entorno \<Rightarrow> CONFIG \<Rightarrow> Punto list \<Rightarrow> int \<Rightarrow> Mundo \<Rightarrow> Mundo" where
  "cicloLecturas ent cfg [] fecha_c w = w"
| "cicloLecturas ent cfg (punto # ps) fecha_c w =
     (case generarLectura ent cfg punto fecha_c (sorteos w) of
        (lectura, n') \<Rightarrow>
          (case enviarLectura ent lectura (w \<lparr> sorteos := n' \<rparr>) of
             (True, w1) \<Rightarrow>
               cicloLecturas ent cfg ps fecha_c (w1 \<lparr> consola := consola w1 @ [LineaLectura lectura] \<rparr>)
           | (False, w1) \<Rightarrow>
               cicloLecturas ent cfg ps fecha_c
                 (w1 \<lparr> consola := consola w1 @ [LineaError (punto_id punto)] \<rparr>)))"

text \<open>
  The body of \<^verbatim>\<open>for (const punto of puntos)\<close> inside \<^verbatim>\<open>ejecutarHistorico\<close>: there is no
  \<^verbatim>\<open>try/catch\<close>, so a rejected write leaves the loop (\<open>Inl\<close>) with the world as it was
  at that moment.  \<open>Inr\<close> carries the world and the count \<^verbatim>\<open>totalLecturas\<close>.
\<close>

fun lecturas_lote :: "entorno \<Rightarrow> CONFIG \<Rightarrow> Punto list \<Rightarrow> int \<Rightarrow> nat \<Rightarrow> Mundo
      \<Rightarrow> Mundo + (nat \<times> Mundo)" where
  "lecturas_lote ent cfg [] fecha_c totalLecturas w = Inr (totalLecturas, w)"
| "lecturas_lote ent cfg (punto # ps) fecha_c totalLecturas w =
     (case generarLectura ent cfg punto fecha_c (sorteos w) of
        (lectura, n') \<Rightarrow>
          (case enviarLectura ent lectura (w \<lparr> sorteos := n' \<rparr>) of
             (True, w1) \<Rightarrow>
               lecturas_lote ent cfg ps fecha_c (totalLecturas + 1)
                 (w1 \<lparr> consola := consola w1 @ [LineaLectura lectura] \<rparr>)
           | (False, w1) \<Rightarrow> Inl w1))"

text \<open>
  How the process ends: \<open>Completada n\<close> is \<^verbatim>\<open>process.exit(0)\<close> after the summary with
  \<open>n\<close> readings, \<open>ErrorFatal\<close> is the \<^verbatim>\<open>catch\<close> of \<^verbatim>\<open>iniciar\<close> followed by
  \<^verbatim>\<open>process.exit(1)\<close>.
\<close>

datatype final = Completada nat | ErrorFatal

text \<open>The \<^verbatim>\<open>while (fechaActual <= fechaFin)\<close> loop; it need not terminate.\<close>

partial_function (option) bucle_historico ::
    "entorno \<Rightarrow> CONFIG \<Rightarrow> Punto list \<Rightarrow> int \<Rightarrow> int \<Rightarrow> nat \<Rightarrow> nat \<Rightarrow> Mundo
       \<Rightarrow> (final \<times> Mundo) option" where
  "bucle_historico ent cfg ps fechaActual_c fechaFin_c lote_c totalLecturas w =
     (if fechaActual_c \<le> fechaFin_c then
        (case lecturas_lote ent cfg ps fechaActual_c totalLecturas
                (w \<lparr> consola := consola w @ [LineaLote (lote_c + 1) fechaActual_c] \<rparr>) of
           Inl w1 \<Rightarrow> Some (ErrorFatal, w1)
         | Inr (totalLecturas1, w1) \<Rightarrow>
             bucle_historico ent cfg ps (fechaActual_c + INCREMENTO_TIEMPO_MS cfg) fechaFin_c
               (lote_c + 1) totalLecturas1
               (if BATCH_SIZE cfg \<noteq> 0 \<and> int (lote_c + 1) mod BATCH_SIZE cfg = 0
                then w1 \<lparr> consola := consola w1 @ [LineaPausa] \<rparr> else w1))
      else Some (Completada totalLecturas, w))"

text \<open>
  \<^verbatim>\<open>ejecutarHistorico\<close>, called when \<open>FECHA_INICIO\<close> is truthy.  \<open>ahora\<close> is the wall
  clock read by \<^verbatim>\<open>new Date()\<close>.  A comparison with an invalid date is false, so the
  loop body never runs then.
\<close>

definition ejecutarHistorico ::
    "entorno \<Rightarrow> CONFIG \<Rightarrow> int \<Rightarrow> Punto list \<Rightarrow> Mundo \<Rightarrow> (final \<times> Mundo) option" where
  "ejecutarHistorico ent cfg ahora ps w =
     (case parsearFecha_config ent (FECHA_INICIO cfg) of
        None \<Rightarrow> Some (ErrorFatal, w)
      | Some fechaInicio \<Rightarrow>
          (let fechaFin_c = (case parsearFecha_config ent (FECHA_FIN cfg) of
                               None \<Rightarrow> Some ahora
                             | Some f \<Rightarrow> f)
           in case (fechaInicio, fechaFin_c) of
                (Some fi, Some ff) \<Rightarrow> bucle_historico ent cfg ps fi ff 0 0 w
              | _ \<Rightarrow> Some (Completada 0, w)))"

section \<open>The web server (\<^verbatim>\<open>server.js\<close>)\<close>

text \<open>
  The repository holds three copies of the server; this is the latest one, with the
  login routes.  \<open>Historico\<close> holds the variables that the closure \<^verbatim>\<open>procesarLote\<close>
  captures.  The record \<open>Servidor\<close> holds
  \<^item> \<^verbatim>\<open>simuladorState\<close> (\<open>corriendo\<close> to \<open>config\<close>; \<open>intervalo\<close> says whether a
    \<^verbatim>\<open>setInterval\<close> handle is stored, and the entries of \<open>lecturas\<close> are kept without
    their two display fields);
  \<^item> what the event loop holds: the closures of the pending
    \<^verbatim>\<open>setTimeout(procesarLote, 100)\<close> calls, the number \<open>esperando\<close> of start requests
    suspended at \<^verbatim>\<open>await obtenerPuntos()\<close>, and the number \<open>huerfanos\<close> of intervals that
    still fire although their handle has been overwritten in \<^verbatim>\<open>simuladorState\<close>;
  \<^item> \<open>caido\<close>: the process has ended on an unhandled rejection;
  \<^item> the world, and the history \<open>ciclos\<close> of the timestamps \<^verbatim>\<open>ejecutarCiclo\<close> was called
    with.

  One call of \<^verbatim>\<open>ejecutarCiclo\<close> is taken as one step: requests arriving while a cycle
  awaits a write are not interleaved with it.
\<close>

record Historico =
  fechaActual :: int
  fechaFin :: int
  incremento :: int
  lote :: nat
  totalLotes :: int

record Servidor =
  corriendo :: bool
  puntos :: "Punto list"
  lecturas :: "Lectura list"
  totalEnviadas :: nat
  intervalo :: bool
  config :: CONFIG
  pendientes :: "Historico list"
  esperando :: nat
  huerfanos :: nat
  caido :: bool
  mundo :: Mundo
  ciclos :: "int list"

text \<open>\<^verbatim>\<open>String.prototype.trim\<close>, for the ASCII white space characters.\<close>

definition es_blanco :: "char \<Rightarrow> bool" where
  "es_blanco c = (c = CHR '' '' \<or> c = CHR 0x09 \<or> c = CHR 0x0A \<or> c = CHR 0x0B
                  \<or> c = CHR 0x0C \<or> c = CHR 0x0D)"

definition trim :: "string \<Rightarrow> string" where
  "trim s = rev (dropWhile es_blanco (rev (dropWhile es_blanco s)))"

text \<open>The \<^verbatim>\<open>parsearFecha\<close> of the server: \<^verbatim>\<open>null\<close> also for a date that does not parse.\<close>

definition parsearFecha :: "entorno \<Rightarrow> string option \<Rightarrow> int option" where
  "parsearFecha ent fechaStr =
     (case fechaStr of
        None \<Rightarrow> None
      | Some s \<Rightarrow>
          if s = [] then None
          else if trim s = [] then None
          else Date_parse ent (replace_espacio (trim s)))"

text \<open>
  The loop of \<^verbatim>\<open>ejecutarCiclo\<close>.  The generator reads the module constant \<^verbatim>\<open>CONFIG\<close>
  (\<open>cfg\<close>), not \<^verbatim>\<open>simuladorState.config\<close>.
\<close>

fun ciclo_puntos :: "entorno \<Rightarrow> CONFIG \<Rightarrow> int \<Rightarrow> Punto list \<Rightarrow> Lectura list \<Rightarrow> Servidor
      \<Rightarrow> Lectura list \<times> Servidor" where
  "ciclo_puntos ent cfg fecha_c [] lecturasLote s = (lecturasLote, s)"
| "ciclo_puntos ent cfg fecha_c (punto # ps) lecturasLote s =
     (case generarLectura ent cfg punto fecha_c (sorteos (mundo s)) of
        (lectura, n') \<Rightarrow>
          (case enviarLectura ent lectura ((mundo s) \<lparr> sorteos := n' \<rparr>) of
             (True, w1) \<Rightarrow>
               ciclo_puntos ent cfg fecha_c ps (lecturasLote @ [lectura])
                 (s \<lparr> mundo := w1, totalEnviadas := totalEnviadas s + 1 \<rparr>)
           | (False, w1) \<Rightarrow>
               ciclo_puntos ent cfg fecha_c ps lecturasLote
                 (s \<lparr> mundo := w1 \<lparr> consola := consola w1 @ [LineaError (punto_id punto)] \<rparr> \<rparr>)))"

definition ejecutarCiclo :: "entorno \<Rightarrow> CONFIG \<Rightarrow> int \<Rightarrow> Servidor \<Rightarrow> Servidor" where
  "ejecutarCiclo ent cfg fecha_c s =
     (case ciclo_puntos ent cfg fecha_c (puntos s) [] (s \<lparr> ciclos := ciclos s @ [fecha_c] \<rparr>) of
        (lecturasLote, s1) \<Rightarrow> s1 \<lparr> lecturas := take 100 (lecturasLote @ lecturas s1) \<rparr>)"

definition detenerSimulador :: "Servidor \<Rightarrow> Servidor" where
  "detenerSimulador s = s \<lparr> intervalo := False, corriendo := False \<rparr>"

text \<open>
  One call of \<^verbatim>\<open>procesarLote\<close>: \<open>None\<close> when it returns without rescheduling itself,
  \<open>Some h\<close> with the closure's new variables when it ends in \<^verbatim>\<open>setTimeout\<close>.
\<close>

definition procesarLote ::
    "entorno \<Rightarrow> CONFIG \<Rightarrow> Historico \<Rightarrow> Servidor \<Rightarrow> Historico option \<times> Servidor" where
  "procesarLote ent cfg h s =
     (if \<not> corriendo s \<or> fechaActual h > fechaFin h then (None, detenerSimulador s)
      else
        let s1 = ejecutarCiclo ent cfg (fechaActual h) s
        in (Some (h \<lparr> lote := lote h + 1, fechaActual := fechaActual h + incremento h \<rparr>), s1))"

text \<open>
  \<^verbatim>\<open>iniciarModoHistorico\<close>.  With a start date that is \<^verbatim>\<open>null\<close> the async function
  throws at \<^verbatim>\<open>fechaInicio.getTime()\<close>; nobody awaits it, and the unhandled rejection
  ends the process, with its timers and suspended requests.  Otherwise
  \<^verbatim>\<open>procesarLote\<close> is called once at the end.
\<close>

definition iniciarModoHistorico :: "entorno \<Rightarrow> CONFIG \<Rightarrow> int \<Rightarrow> Servidor \<Rightarrow> Servidor" where
  "iniciarModoHistorico ent cfg ahora s =
     (case parsearFecha ent (FECHA_INICIO (config s)) of
        None \<Rightarrow> s \<lparr> caido := True, pendientes := [], esperando := 0, huerfanos := 0,
                    intervalo := False \<rparr>
      | Some fi \<Rightarrow>
          (let ff = (case parsearFecha ent (FECHA_FIN (config s)) of
                       None \<Rightarrow> ahora | Some f \<Rightarrow> f);
               inc = (if INCREMENTO_TIEMPO_MS (config s) = 0 then 3600000
                      else INCREMENTO_TIEMPO_MS (config s));
               h = \<lparr> fechaActual = fi, fechaFin = ff, incremento = inc, lote = 0,
                     totalLotes = - ((- (ff - fi)) div inc) \<rparr>
           in case procesarLote ent cfg h s of
                (None, s1) \<Rightarrow> s1
              | (Some h1, s1) \<Rightarrow> s1 \<lparr> pendientes := pendientes s1 @ [h1] \<rparr>))"

text \<open>
  \<^verbatim>\<open>iniciarModoTiempoReal\<close>.  The new handle replaces the stored one; an interval
  whose handle is replaced keeps firing.
\<close>

definition iniciarModoTiempoReal :: "entorno \<Rightarrow> CONFIG \<Rightarrow> int \<Rightarrow> Servidor \<Rightarrow> Servidor" where
  "iniciarModoTiempoReal ent cfg ahora s =
     (ejecutarCiclo ent cfg ahora s)
       \<lparr> huerfanos := huerfanos s + (if intervalo s then 1 else 0), intervalo := True \<rparr>"

record Respuesta =
  codigo :: nat
  success :: bool

text \<open>
  \<^verbatim>\<open>POST /api/iniciar\<close> runs in two parts.  \<open>api_iniciar\<close> is the part up to
  \<^verbatim>\<open>await obtenerPuntos()\<close>: the two guards, and then either the suspension of the
  request (no points are loaded; no response yet) or, with points loaded, the rest of
  the handler at once.  \<open>autenticado\<close> is \<^verbatim>\<open>auth.currentUser\<close> being set.
  \<open>arrancar\<close> is the rest of the handler: the mode, \<open>corriendo = true\<close>, the start of the
  mode, the response.  \<open>reanudar_iniciar\<close> is a suspended request going on when
  \<^verbatim>\<open>obtenerPuntos()\<close> settles, with the points \<open>cargados\<close>, or \<open>None\<close> when it rejects.
\<close>

definition arrancar :: "entorno \<Rightarrow> CONFIG \<Rightarrow> int \<Rightarrow> Servidor \<Rightarrow> Respuesta \<times> Servidor" where
  "arrancar ent cfg ahora s =
     (let historico = (case FECHA_INICIO (config s) of None \<Rightarrow> False | Some f \<Rightarrow> f \<noteq> []);
          s2 = s \<lparr> corriendo := True \<rparr>
      in (\<lparr> codigo = 200, success = True \<rparr>,
          if historico then iniciarModoHistorico ent cfg ahora s2
          else iniciarModoTiempoReal ent cfg ahora s2))"

definition api_iniciar ::
    "entorno \<Rightarrow> CONFIG \<Rightarrow> bool \<Rightarrow> int \<Rightarrow> Servidor \<Rightarrow> Respuesta option \<times> Servidor" where
  "api_iniciar ent cfg autenticado ahora s =
     (if caido s then (None, s)
      else if \<not> autenticado then (Some \<lparr> codigo = 401, success = False \<rparr>, s)
      else if corriendo s then (Some \<lparr> codigo = 200, success = False \<rparr>, s)
      else if puntos s = [] then (None, s \<lparr> esperando := esperando s + 1 \<rparr>)
      else (case arrancar ent cfg ahora s of (r, s1) \<Rightarrow> (Some r, s1)))"

definition reanudar_iniciar ::
    "entorno \<Rightarrow> CONFIG \<Rightarrow> Punto list option \<Rightarrow> int \<Rightarrow> Servidor
       \<Rightarrow> Respuesta option \<times> Servidor" where
  "reanudar_iniciar ent cfg cargados ahora s =
     (if esperando s = 0 then (None, s)
      else
        (case cargados of
           None \<Rightarrow> (Some \<lparr> codigo = 200, success = False \<rparr>, s \<lparr> esperando := esperando s - 1 \<rparr>)
         | Some ps \<Rightarrow>
             (case arrancar ent cfg ahora (s \<lparr> esperando := esperando s - 1, puntos := ps \<rparr>) of
                (r, s1) \<Rightarrow> (Some r, s1))))"

text \<open>
  What can happen to the server: a start request arrives; \<^verbatim>\<open>obtenerPuntos()\<close> settles
  for a suspended start request; a stop request arrives; the timeout of the \<open>i\<close>-th
  pending \<^verbatim>\<open>procesarLote\<close> fires; an interval fires at wall-clock time \<open>t\<close>.
\<close>

datatype evento =
    Iniciar bool int
  | Cargados "Punto list option" int
  | Detener
  | Temporizador nat
  | Intervalo int

fun paso :: "entorno \<Rightarrow> CONFIG \<Rightarrow> evento \<Rightarrow> Servidor \<Rightarrow> Servidor" where
  "paso ent cfg (Iniciar autenticado ahora) s = snd (api_iniciar ent cfg autenticado ahora s)"
| "paso ent cfg (Cargados cargados ahora) s = snd (reanudar_iniciar ent cfg cargados ahora s)"
| "paso ent cfg Detener s = (if caido s then s else detenerSimulador s)"
| "paso ent cfg (Temporizador i) s =
     (if i < length (pendientes s) then
        (case procesarLote ent cfg (pendientes s ! i)
                (s \<lparr> pendientes := take i (pendientes s) @ drop (Suc i) (pendientes s) \<rparr>) of
           (None, s1) \<Rightarrow> s1
         | (Some h1, s1) \<Rightarrow> s1 \<lparr> pendientes := pendientes s1 @ [h1] \<rparr>)
      else s)"
| "paso ent cfg (Intervalo t) s =
     (if intervalo s \<or> 0 < huerfanos s then ejecutarCiclo ent cfg t s else s)"

fun pasos :: "entorno \<Rightarrow> CONFIG \<Rightarrow> evento list \<Rightarrow> Servidor \<Rightarrow> Servidor" where
  "pasos ent cfg [] s = s"
| "pasos ent cfg (e # es) s = pasos ent cfg es (paso ent cfg e s)"

text \<open>
  A historical run left alone: the pending timeouts fire, one after the other, until
  none is left.  The run need not end.
\<close>

partial_function (option) agotar :: "entorno \<Rightarrow> CONFIG \<Rightarrow> Servidor \<Rightarrow> Servidor option" where
  "agotar ent cfg s =
     (if pendientes s = [] then Some s else agotar ent cfg (paso ent cfg (Temporizador 0) s))"

section \<open>Observations on a run\<close>

text \<open>The events that belong to a start request, as opposed to the other events.\<close>

fun es_inicio :: "evento \<Rightarrow> bool" where
  "es_inicio (Iniciar a t) = True"
| "es_inicio (Cargados c t) = True"
| "es_inicio e = False"

text \<open>
  The runs that will go on by themselves: the pending historical steps and the live
  intervals.
\<close>

definition activas :: "Servidor \<Rightarrow> nat" where
  "activas s = length (pendientes s) + huerfanos s + (if intervalo s then 1 else 0)"

text \<open>The timestamps of the batch headers \<^verbatim>\<open>Lote n - fecha\<close> printed so far.\<close>

fun instantes :: "linea list \<Rightarrow> int list" where
  "instantes [] = []"
| "instantes (LineaLote n t # ls) = t # instantes ls"
| "instantes (l # ls) = instantes ls"

section \<open>Concrete runs\<close>

definition config_rango :: CONFIG where
  "config_rango = CONFIG_inicial \<lparr> FECHA_FIN := Some ''2025-01-01 03:00:00'' \<rparr>"

definition servidor_listo :: Servidor where
  "servidor_listo =
     \<lparr> corriendo = True, puntos = [punto_N1, punto_N2], lecturas = [], totalEnviadas = 0,
       intervalo = False, config = config_rango, pendientes = [], esperando = 0,
       huerfanos = 0, caido = False, mundo = mundo_inicial, ciclos = [] \<rparr>"

definition entorno_rechazo :: entorno where
  "entorno_rechazo = entorno_prueba \<lparr> rechaza := (\<lambda>k. k = 0) \<rparr>"

definition lectura_N1 :: Lectura where
  "lectura_N1 = \<lparr> id_punto = ''N1'', estado = ''activo'', consumo_kwh = 1705 / 100,
                   fecha = 1735711200000 \<rparr>"

definition lectura_N2 :: Lectura where
  "lectura_N2 = \<lparr> id_punto = ''N2'', estado = ''inactivo'', consumo_kwh = 0,
                   fecha = 1735711200000 \<rparr>"

definition servidor_parado :: Servidor where
  "servidor_parado =
     \<lparr> corriendo = False, puntos = [punto_N1, punto_N2], lecturas = [], totalEnviadas = 0,
       intervalo = False, config = config_rango, pendientes = [], esperando = 0,
       huerfanos = 0, caido = False, mundo = mundo_inicial, ciclos = [] \<rparr>"

text \<open>The server before any point has been loaded.\<close>

definition servidor_vacio :: Servidor where
  "servidor_vacio = servidor_parado \<lparr> puntos := [] \<rparr>"

text \<open>The server after a start request on \<open>servidor_parado\<close>: one cycle run, one step pending.\<close>

definition servidor_corriendo :: Servidor where
  "servidor_corriendo =
     \<lparr> corriendo = True, puntos = [punto_N1, punto_N2], lecturas = [lectura_N1, lectura_N2],
       totalEnviadas = 2, intervalo = False, config = config_rango,
       pendientes = [\<lparr> fechaActual = 1735714800000, fechaFin = 1735722000000,
                       incremento = 3600000, lote = 1, totalLotes = 3 \<rparr>],
       esperando = 0, huerfanos = 0, caido = False,
       mundo = \<lparr> sorteos = 2, envios = 2, almacen = [lectura_N1, lectura_N2], consola = [] \<rparr>,
       ciclos = [1735711200000] \<rparr>"

section \<open>Properties of the generator\<close>

text \<open>
  C2. A point with \<open>activo = false\<close> yields \<open>estado = "inactivo"\<close> and \<open>consumo_kwh = 0\<close>,
  whatever the timestamp, the configuration and the platform, and no call of
  \<^verbatim>\<open>Math.random()\<close> is made: the count of calls is returned unchanged.
\<close>

theorem generarLectura_inactivo:
  assumes "\<not> activo punto"
  shows "generarLectura ent cfg punto fechaSimulada n =
           (\<lparr> id_punto = punto_id punto, estado = ''inactivo'', consumo_kwh = 0,
              fecha = fechaSimulada \<rparr>, n)"
  using assms by (simp add: generarLectura_def)

theorem generarLectura_inactivo_witness:
  "\<not> activo punto_N2 \<and>
   generarLectura entorno_prueba CONFIG_inicial punto_N2 1735743600000 7 =
     (\<lparr> id_punto = ''N2'', estado = ''inactivo'', consumo_kwh = 0,
        fecha = 1735743600000 \<rparr>, 7)"
  using generarLectura_inactivo [of punto_N2 entorno_prueba CONFIG_inicial 1735743600000 7]
  by (simp add: punto_N2_def)



lemma redondear_exacto: "redondear exacto x = x"
  by transfer simp







lemmas aritmetica_exacta =
  producto_def suma_def resta_def toFixed2_def decimales2_def redondear_exacto

lemma rne_cotas: "\<lfloor>x\<rfloor> \<le> rne x" "rne x \<le> \<lfloor>x\<rfloor> + 1"
  by (simp_all add: rne_def Let_def)

lemma rne_of_int: "rne (of_int k) = k"
  by (simp add: rne_def)

lemma rne_mono:
  assumes "x \<le> y"
  shows "rne x \<le> rne y"
proof (cases "\<lfloor>x\<rfloor> = \<lfloor>y\<rfloor>")
  case True
  then show ?thesis
    using assms by (auto simp add: rne_def Let_def)
next
  case False
  then have "\<lfloor>x\<rfloor> + 1 \<le> \<lfloor>y\<rfloor>"
    using assms floor_mono [of x y] by linarith
  then show ?thesis
    using rne_cotas(2) [of x] rne_cotas(1) [of y] by linarith
qed

lemma cuanto_pos: "0 < cuanto x"
  by (simp add: cuanto_def)

lemma exponente_mono: "0 < x \<Longrightarrow> x \<le> y \<Longrightarrow> exponente x \<le> exponente y"
  unfolding exponente_def by (intro max.mono order_refl floor_mono) simp

lemma bajo_potencia: 
  assumes "0 < x"
  shows "x < 2 powr (of_int (exponente x) + 1)"
proof -
  have "log 2 x < of_int \<lfloor>log 2 x\<rfloor> + 1" by linarith
  also have "\<dots> \<le> of_int (exponente x) + 1" by (simp add: exponente_def)
  finally have "log 2 x < of_int (exponente x) + 1" .
  then show ?thesis
    using assms by (simp add: log_less_iff)
qed

lemma sobre_potencia:
  assumes "0 < x" and "- 1022 < exponente x"
  shows "2 powr (of_int (exponente x)) \<le> x"
proof -
  have "exponente x = \<lfloor>log 2 x\<rfloor>"
    using assms(2) by (simp add: exponente_def max_def split: if_splits)
  then have "of_int (exponente x) \<le> log 2 x" by simp
  then show ?thesis
    using assms(1) by (simp add: le_log_iff)
qed

lemma redondeo_pos_nonneg: "0 < x \<Longrightarrow> 0 \<le> redondeo_pos x"
proof -
  assume "0 < x"
  then have "0 \<le> x / cuanto x" using cuanto_pos [of x] by simp
  then have "rne 0 \<le> rne (x / cuanto x)" by (rule rne_mono)
  then have "0 \<le> rne (x / cuanto x)" using rne_of_int [of 0] by simp
  then show ?thesis
    using cuanto_pos [of x] by (simp add: redondeo_pos_def)
qed

lemma redondeo_pos_mono:
  assumes "0 < x" and "x \<le> y"
  shows "redondeo_pos x \<le> redondeo_pos y"
proof (cases "exponente x = exponente y")
  case True
  then have q: "cuanto x = cuanto y" by (simp add: cuanto_def)
  have "x / cuanto y \<le> y / cuanto y"
    using assms(2) cuanto_pos [of y] by (simp add: divide_right_mono)
  then have "rne (x / cuanto y) \<le> rne (y / cuanto y)" by (rule rne_mono)
  then show ?thesis
    using cuanto_pos [of y] by (simp add: redondeo_pos_def q)
next
  case False
  then have lt: "exponente x < exponente y"
    using exponente_mono [OF assms] by simp
  have ypos: "0 < y" using assms by simp
  let ?b = "2 powr (of_int (exponente x) + 1) :: real"
  let ?c = "2 powr (of_int (exponente y)) :: real"
  have bq: "?b / cuanto x = of_int (2 ^ 53)"
  proof -
    have "?b / cuanto x = 2 powr ((of_int (exponente x) + 1) - (of_int (exponente x) - 52))"
      unfolding cuanto_def by (simp only: powr_diff)
    also have "\<dots> = 2 powr 53" by simp
    also have "\<dots> = of_int (2 ^ 53)" by (simp add: powr_numeral)
    finally show ?thesis .
  qed
  have "x / cuanto x \<le> ?b / cuanto x"
    using bajo_potencia [OF assms(1)] cuanto_pos [of x] by (simp add: divide_right_mono)
  then have "rne (x / cuanto x) \<le> rne (?b / cuanto x)" by (rule rne_mono)
  then have "rne (x / cuanto x) \<le> 2 ^ 53"
    unfolding bq rne_of_int .
  then have "real_of_int (rne (x / cuanto x)) \<le> real_of_int (2 ^ 53)"
    by (simp only: of_int_le_iff)
  moreover have "0 \<le> cuanto x" using cuanto_pos [of x] by simp
  ultimately have "of_int (rne (x / cuanto x)) * cuanto x \<le> of_int (2 ^ 53) * cuanto x"
    by (rule mult_right_mono)
  also have "of_int (2 ^ 53) * cuanto x = ?b"
    using bq cuanto_pos [of x] by (simp add: field_simps)
  finally have 1: "redondeo_pos x \<le> ?b" by (simp add: redondeo_pos_def)
  have "exponente x + 1 \<le> exponente y" using lt by simp
  then have "real_of_int (exponente x + 1) \<le> real_of_int (exponente y)"
    by (simp only: of_int_le_iff)
  then have bc: "?b \<le> ?c"
    by (intro powr_mono) simp_all
  have cq: "?c / cuanto y = of_int (2 ^ 52)"
  proof -
    have "?c / cuanto y = 2 powr (of_int (exponente y) - (of_int (exponente y) - 52))"
      unfolding cuanto_def by (simp only: powr_diff)
    also have "\<dots> = 2 powr 52" by simp
    also have "\<dots> = of_int (2 ^ 52)" by (simp add: powr_numeral)
    finally show ?thesis .
  qed
  have "- 1022 < exponente y"
    using lt by (simp add: exponente_def [of x])
  then have "?c \<le> y" using sobre_potencia [OF ypos] by simp
  then have "?c / cuanto y \<le> y / cuanto y"
    using cuanto_pos [of y] by (simp add: divide_right_mono)
  then have "rne (?c / cuanto y) \<le> rne (y / cuanto y)" by (rule rne_mono)
  then have "2 ^ 52 \<le> rne (y / cuanto y)"
    unfolding cq rne_of_int .
  then have "real_of_int (2 ^ 52) \<le> real_of_int (rne (y / cuanto y))"
    by (simp only: of_int_le_iff)
  moreover have "0 \<le> cuanto y" using cuanto_pos [of y] by simp
  ultimately have "of_int (2 ^ 52) * cuanto y \<le> of_int (rne (y / cuanto y)) * cuanto y"
    by (rule mult_right_mono)
  moreover have "of_int (2 ^ 52) * cuanto y = ?c"
    using cq cuanto_pos [of y] by (simp add: field_simps)
  ultimately have 2: "?c \<le> redondeo_pos y" by (simp add: redondeo_pos_def)
  from 1 bc 2 show ?thesis by linarith
qed

lemma redondeo_binary64_mono: "mono redondeo_binary64"
proof (rule monoI)
  fix x y :: real
  assume le: "x \<le> y"
  consider "0 < x" | "x = 0" | "x < 0" "y < 0" | "x < 0" "0 \<le> y" by linarith
  then show "redondeo_binary64 x \<le> redondeo_binary64 y"
  proof cases
    case 1
    then show ?thesis
      using le redondeo_pos_mono [of x y] by (simp add: redondeo_binary64_def)
  next
    case 2
    then show ?thesis
      using le redondeo_pos_nonneg [of y] by (auto simp add: redondeo_binary64_def)
  next
    case 3
    then show ?thesis
      using le redondeo_pos_mono [of "- y" "- x"] by (simp add: redondeo_binary64_def)
  next
    case 4
    then show ?thesis
      using redondeo_pos_nonneg [of "- x"] redondeo_pos_nonneg [of y]
      by (auto simp add: redondeo_binary64_def)
  qed
qed

lemma redondeo_pos_1: "redondeo_pos 1 = 1"
proof -
  have e: "exponente 1 = 0" by (simp add: exponente_def)
  have q: "cuanto 1 = 1 / 2 ^ 52"
    by (simp add: cuanto_def e powr_minus powr_numeral inverse_eq_divide)
  show ?thesis
    by (simp add: redondeo_pos_def q rne_def)
qed

lemma redondeo_binary64_fijos:
  "redondeo_binary64 0 = 0" "redondeo_binary64 1 = 1" "redondeo_binary64 (- 1) = - 1"
  by (simp_all add: redondeo_binary64_def redondeo_pos_1)

lemma redondear_binario64: "redondear binario64 = redondeo_binary64"
  unfolding binario64_def redondear.rep_eq
  by (rule Abs_redondeo_inverse) (simp add: redondeo_binary64_mono redondeo_binary64_fijos)

lemma redondeo_en_binada:
  assumes "2 ^ k \<le> x" and "x < 2 ^ (k + 1)" and "k \<le> 52"
  shows "redondeo_binary64 x = of_int (rne (x * 2 ^ (52 - k))) / 2 ^ (52 - k)"
proof -
  have pos: "0 < x"
    using assms(1) by (meson less_le_trans zero_less_numeral zero_less_power)
  have "real k \<le> log 2 x"
    using assms(1) pos by (simp add: le_log_iff powr_realpow)
  moreover have "log 2 x < real k + 1"
    using assms(2) pos by (simp add: log_less_iff powr_realpow powr_add)
  ultimately have "\<lfloor>log 2 x\<rfloor> = int k"
    by (simp add: floor_eq_iff)
  then have e: "exponente x = int k"
    by (simp add: exponente_def)
  have "cuanto x = 2 powr (- real (52 - k))"
    using assms(3) by (simp add: cuanto_def e of_nat_diff)
  then have q: "cuanto x = 1 / 2 ^ (52 - k)"
    by (simp add: powr_minus powr_realpow inverse_eq_divide)
  show ?thesis
    using pos by (simp add: redondeo_binary64_def redondeo_pos_def q)
qed

lemma redondeos_prueba:
  "redondeo_binary64 (93 / 4) = 93 / 4"
  "redondeo_binary64 (502601718414547335 / 72057594037927936)
     = 3926575925113651 / 562949953421312"
  "redondeo_binary64 (3926575925113651 / 562949953421312)
     = 3926575925113651 / 562949953421312"
  "redondeo_binary64 (697 / 100) = 7847522350693089 / 1125899906842624"
  using redondeo_en_binada [of 4 "93 / 4"]
    redondeo_en_binada [of 2 "502601718414547335 / 72057594037927936"]
    redondeo_en_binada [of 2 "3926575925113651 / 562949953421312"]
    redondeo_en_binada [of 2 "697 / 100"]
  by (simp_all add: rne_def)

text \<open>
  The same below 2: a value from \<open>1 / 2 ^ k\<close> up to \<open>2 / 2 ^ k\<close> is rounded to a multiple of
  \<open>1 / 2 ^ (52 + k)\<close>.
\<close>

lemma redondeo_en_binada_baja:
  assumes "1 / 2 ^ k \<le> x" and "x < 2 / 2 ^ k" and "k \<le> 1022"
  shows "redondeo_binary64 x = of_int (rne (x * 2 ^ (52 + k))) / 2 ^ (52 + k)"
proof -
  have pos: "0 < x"
    using assms(1) by (meson divide_pos_pos less_le_trans zero_less_numeral zero_less_one
        zero_less_power)
  have "- real k \<le> log 2 x"
    using assms(1) pos by (simp add: le_log_iff powr_minus powr_realpow inverse_eq_divide)
  moreover have "log 2 x < - real k + 1"
  proof -
    have "(2::real) powr (- real k + 1) = 2 powr (- real k) * 2 powr 1"
      by (rule powr_add)
    then have "(2::real) powr (- real k + 1) = 2 / 2 ^ k"
      by (simp add: powr_minus powr_realpow inverse_eq_divide)
    then show ?thesis
      using assms(2) pos by (simp add: log_less_iff)
  qed
  ultimately have "\<lfloor>log 2 x\<rfloor> = - int k"
    by (simp add: floor_eq_iff)
  then have e: "exponente x = - int k"
    using assms(3) by (simp add: exponente_def)
  have "real_of_int (- int k) - 52 = - real (52 + k)"
    by simp
  then have "cuanto x = 2 powr (- real (52 + k))"
    unfolding cuanto_def e by (rule arg_cong)
  also have "\<dots> = inverse (2 powr real (52 + k))"
    by (rule powr_minus)
  also have "(2::real) powr real (52 + k) = 2 ^ (52 + k)"
    by (rule powr_realpow) simp
  finally have q: "cuanto x = 1 / 2 ^ (52 + k)"
    by (simp only: inverse_eq_divide)
  show ?thesis
    using pos by (simp add: redondeo_binary64_def redondeo_pos_def q)
qed

lemma redondeos_prueba_bajos:
  "redondeo_binary64 (1 / 2) = 1 / 2"
  "redondeo_binary64 (- (1 / 2)) = - (1 / 2)"
  "redondeo_binary64 (- (3602879701896397 / 36028797018963968))
     = - (3602879701896397 / 36028797018963968)"
  "redondeo_binary64 (32425917317067571 / 36028797018963968)
     = 8106479329266893 / 9007199254740992"
  "redondeo_binary64 (56745355304868251 / 36028797018963968)
     = 7093169413108531 / 4503599627370496"
  "redondeo_binary64 (157 / 100) = 7070651414971679 / 4503599627370496"
  using redondeo_en_binada_baja [of 1 "1 / 2"]
    redondeo_en_binada_baja [of 4 "3602879701896397 / 36028797018963968"]
    redondeo_en_binada_baja [of 1 "32425917317067571 / 36028797018963968"]
    redondeo_en_binada [of 0 "56745355304868251 / 36028797018963968"]
    redondeo_en_binada [of 0 "157 / 100"]
  by (simp_all add: rne_def redondeo_binary64_def)

text \<open>
  C1. For an active point whose error draw does not fire, the reading has
  \<open>estado = "activo"\<close>.  Its consumption starts from the base value, is multiplied by
  \<open>FACTOR_PICO\<close> when peaks are simulated, the date gate passes and the local hour is in a
  window, is multiplied by \<open>FACTOR_FIN_SEMANA\<close> on Saturday and Sunday (after the peak
  factor, when both apply), and is then multiplied by \<open>1 + (2u - 1) * VARIACION_CONSUMO\<close>,
  \<open>u\<close> being the second draw.  Every product, sum and difference is the binary64 one.
  The value is rounded to two decimals once, at the end.
\<close>

theorem generarLectura_activo_formula:
  fixes ent :: entorno and cfg :: CONFIG and punto :: Punto and fechaSimulada :: int
    and n :: nat
  defines "tras_pico \<equiv>
             (if SIMULAR_PICOS cfg \<and> deberiaaplicarPico ent cfg fechaSimulada
                 \<and> esHorarioPico cfg (getHours ent fechaSimulada)
              then producto ent (consumo_base_kwh punto) (FACTOR_PICO cfg)
              else consumo_base_kwh punto)"
  defines "tras_fin_de_semana \<equiv>
             (if getDay ent fechaSimulada = 6 \<or> getDay ent fechaSimulada = 0
              then producto ent tras_pico (FACTOR_FIN_SEMANA cfg)
              else tras_pico)"
  assumes "activo punto" and "\<not> Math_random ent n < PROBABILIDAD_ERROR cfg"
  shows "generarLectura ent cfg punto fechaSimulada n =
           (\<lparr> id_punto = punto_id punto, estado = ''activo'',
              consumo_kwh = toFixed2 ent
                (producto ent tras_fin_de_semana
                   (suma ent 1
                      (producto ent (resta ent (producto ent (Math_random ent (n + 1)) 2) 1)
                         (VARIACION_CONSUMO cfg)))),
              fecha = fechaSimulada \<rparr>, n + 2)"
  using assms(3,4) unfolding tras_pico_def tras_fin_de_semana_def
  by (auto simp add: generarLectura_def Let_def)

text \<open>
  Saturday 2025-01-04, 09:00 local time: both factors apply to the same reading.  With
  binary64 arithmetic, base 15.5, factors 1.5 and 0.3 and a variance draw of 1/2, the
  product is just below 6.975 and the reading is the binary64 number nearest 6.97.
\<close>

theorem generarLectura_activo_formula_witness:
  "activo punto_N3 \<and> \<not> Math_random entorno_prueba 0 < PROBABILIDAD_ERROR config_diadica \<and>
   generarLectura entorno_prueba config_diadica punto_N3 1736002800000 0 =
     (\<lparr> id_punto = ''N3'', estado = ''activo'', consumo_kwh = 27 / 4,
        fecha = 1736002800000 \<rparr>, 2) \<and>
   activo punto_N1 \<and> \<not> Math_random entorno_binary64 0 < PROBABILIDAD_ERROR CONFIG_binary64 \<and>
   generarLectura entorno_binary64 CONFIG_binary64 punto_N1 1736002800000 0 =
     (\<lparr> id_punto = ''N1'', estado = ''activo'',
        consumo_kwh = 7847522350693089 / 1125899906842624, fecha = 1736002800000 \<rparr>, 2)"
proof -
  have a: "generarLectura entorno_prueba config_diadica punto_N3 1736002800000 0 =
     (\<lparr> id_punto = ''N3'', estado = ''activo'', consumo_kwh = 27 / 4,
        fecha = 1736002800000 \<rparr>, 2)"
    using generarLectura_activo_formula [of punto_N3 entorno_prueba 0 config_diadica
        1736002800000]
    by (simp add: punto_N3_def entorno_prueba_def config_diadica_def CONFIG_inicial_def
        deberiaaplicarPico_def esHorarioPico_def getHours_def getDay_def aritmetica_exacta
        floor_eq_iff)
  have b: "generarLectura entorno_binary64 CONFIG_binary64 punto_N1 1736002800000 0 =
     (\<lparr> id_punto = ''N1'', estado = ''activo'',
        consumo_kwh = 7847522350693089 / 1125899906842624, fecha = 1736002800000 \<rparr>, 2)"
    using generarLectura_activo_formula [of punto_N1 entorno_binary64 0 CONFIG_binary64
        1736002800000]
    by (simp add: punto_N1_def entorno_binary64_def entorno_prueba_def CONFIG_binary64_def
        CONFIG_inicial_def deberiaaplicarPico_def esHorarioPico_def getHours_def getDay_def
        producto_def suma_def resta_def toFixed2_def decimales2_def redondear_binario64
        redondeos_prueba redondeo_binary64_fijos)
  show ?thesis
    using a b
    by (simp add: punto_N3_def punto_N1_def entorno_prueba_def entorno_binary64_def
        config_diadica_def CONFIG_binary64_def CONFIG_inicial_def)
qed

text \<open>
  Wednesday 2025-01-01, 12:00 local time, outside the windows: base 1.75 and a variance
  draw of 1/4.  The binary64 variation is the number nearest 0.9, the binary64 product is
  just below 1.575 and the reading is the binary64 number nearest 1.57.
\<close>

lemma lectura_binary64_baja:
  "generarLectura entorno_binary64_bajo CONFIG_binary64 punto_N4 1735754400000 0 =
     (\<lparr> id_punto = ''N4'', estado = ''activo'',
        consumo_kwh = 7070651414971679 / 4503599627370496, fecha = 1735754400000 \<rparr>, 2)"
  by (simp add: generarLectura_def Let_def punto_N4_def entorno_binary64_bajo_def
      entorno_binary64_def entorno_prueba_def CONFIG_binary64_def CONFIG_inicial_def
      deberiaaplicarPico_def esHorarioPico_def getHours_def getDay_def producto_def
      suma_def resta_def toFixed2_def decimales2_def redondear_binario64
      redondeos_prueba_bajos redondeo_binary64_fijos)

text \<open>
  C3. For an active point whose error draw does not fire, the base value is multiplied
  by \<open>FACTOR_PICO\<close>, once, exactly when \<open>SIMULAR_PICOS\<close> is set, the local hour \<open>h\<close> satisfies
  \<open>inicio \<le> h < fin\<close> for the morning or the afternoon window, and \<open>FECHA_INICIO\<close> is absent
  (null or empty) or parses to an instant not after the timestamp; in every other case
  the base value goes on unchanged to the weekend and variance steps.  With the windows
  8-12 and 14-18, hour 8 is peak and hour 12 is not.
\<close>

theorem pico_si_y_solo_si:
  fixes ent :: entorno and cfg :: CONFIG and punto :: Punto and fechaSimulada :: int
    and n :: nat
  defines "hora \<equiv> getHours ent fechaSimulada"
  defines "pico \<equiv>
             (SIMULAR_PICOS cfg
              \<and> ((inicio (MANANA (HORARIOS_PICO cfg)) \<le> hora
                    \<and> hora < fin (MANANA (HORARIOS_PICO cfg)))
                  \<or> (inicio (TARDE (HORARIOS_PICO cfg)) \<le> hora
                    \<and> hora < fin (TARDE (HORARIOS_PICO cfg))))
              \<and> (case FECHA_INICIO cfg of
                    None \<Rightarrow> True
                  | Some s \<Rightarrow> s = [] \<or>
                      (case Date_parse ent (replace_espacio s) of
                         None \<Rightarrow> False
                       | Some fechaInicio \<Rightarrow> fechaInicio \<le> fechaSimulada)))"
  defines "tras_pico \<equiv>
             (if pico then producto ent (consumo_base_kwh punto) (FACTOR_PICO cfg)
              else consumo_base_kwh punto)"
  assumes "activo punto" and "\<not> Math_random ent n < PROBABILIDAD_ERROR cfg"
  shows "consumo_kwh (fst (generarLectura ent cfg punto fechaSimulada n)) =
           toFixed2 ent
             (producto ent
                (if getDay ent fechaSimulada = 6 \<or> getDay ent fechaSimulada = 0
                 then producto ent tras_pico (FACTOR_FIN_SEMANA cfg) else tras_pico)
                (suma ent 1
                   (producto ent (resta ent (producto ent (Math_random ent (n + 1)) 2) 1)
                      (VARIACION_CONSUMO cfg))))
         \<and> (HORARIOS_PICO cfg = \<lparr> MANANA = \<lparr> inicio = 8, fin = 12 \<rparr>,
                                  TARDE = \<lparr> inicio = 14, fin = 18 \<rparr> \<rparr>
              \<longrightarrow> esHorarioPico cfg 8 \<and> \<not> esHorarioPico cfg 12)"
  using assms(4,5) unfolding hora_def pico_def tras_pico_def
  by (auto simp add: generarLectura_def Let_def deberiaaplicarPico_def esHorarioPico_def
      split: option.splits)

text \<open>Wednesday 2025-01-01 at 08:00 (peak) and at 12:00 (not peak), local time.\<close>

theorem pico_si_y_solo_si_witness:
  "activo punto_N3 \<and> \<not> Math_random entorno_prueba 0 < PROBABILIDAD_ERROR config_diadica \<and>
   consumo_kwh (fst (generarLectura entorno_prueba config_diadica punto_N3 1735740000000 0))
     = 27 \<and>
   consumo_kwh (fst (generarLectura entorno_prueba config_diadica punto_N3 1735754400000 0))
     = 18 \<and>
   esHorarioPico config_diadica 8 \<and> \<not> esHorarioPico config_diadica 12"
  using pico_si_y_solo_si [of punto_N3 entorno_prueba 0 config_diadica 1735740000000]
    pico_si_y_solo_si [of punto_N3 entorno_prueba 0 config_diadica 1735754400000]
  by (simp add: punto_N3_def entorno_prueba_def config_diadica_def CONFIG_inicial_def
      getHours_def getDay_def aritmetica_exacta floor_eq_iff)

text \<open>
  C4. An active point makes one draw \<open>u\<close> and yields \<open>estado = "error"\<close> with
  \<open>consumo_kwh = 0\<close> exactly when \<open>u < PROBABILIDAD_ERROR\<close>; so with probability 1 every
  reading of an active point is an error and with probability 0 none is (\<open>u\<close> lies in
  \<open>[0,1)\<close>).  The error draw is call \<open>n\<close> and the variance draw is call \<open>n + 1\<close>; an error
  reading consumes one draw, an active one two, and an inactive point consumes none and
  is never an error.
\<close>

theorem regla_error:
  fixes ent :: entorno and cfg :: CONFIG and punto :: Punto and fechaSimulada :: int
    and n :: nat
  defines "r \<equiv> generarLectura ent cfg punto fechaSimulada n"
  defines "tras_pico \<equiv>
             (if SIMULAR_PICOS cfg \<and> deberiaaplicarPico ent cfg fechaSimulada
                 \<and> esHorarioPico cfg (getHours ent fechaSimulada)
              then producto ent (consumo_base_kwh punto) (FACTOR_PICO cfg)
              else consumo_base_kwh punto)"
  defines "tras_fin_de_semana \<equiv>
             (if getDay ent fechaSimulada = 0 \<or> getDay ent fechaSimulada = 6
              then producto ent tras_pico (FACTOR_FIN_SEMANA cfg)
              else tras_pico)"
  shows "(activo punto \<longrightarrow>
      ((estado (fst r) = ''error'') = (Math_random ent n < PROBABILIDAD_ERROR cfg))
    \<and> (Math_random ent n < PROBABILIDAD_ERROR cfg \<longrightarrow>
          r = (\<lparr> id_punto = punto_id punto, estado = ''error'', consumo_kwh = 0,
                 fecha = fechaSimulada \<rparr>, n + 1))
    \<and> (\<not> Math_random ent n < PROBABILIDAD_ERROR cfg \<longrightarrow>
          estado (fst r) = ''activo''
        \<and> snd r = n + 2
        \<and> consumo_kwh (fst r) =
            toFixed2 ent
              (producto ent tras_fin_de_semana
                 (suma ent 1
                    (producto ent (resta ent (producto ent (Math_random ent (n + 1)) 2) 1)
                       (VARIACION_CONSUMO cfg)))))
    \<and> (PROBABILIDAD_ERROR cfg = 1 \<and> 0 \<le> Math_random ent n \<and> Math_random ent n < 1 \<longrightarrow>
          estado (fst r) = ''error'')
    \<and> (PROBABILIDAD_ERROR cfg = 0 \<and> 0 \<le> Math_random ent n \<and> Math_random ent n < 1 \<longrightarrow>
          estado (fst r) \<noteq> ''error''))
   \<and> (\<not> activo punto \<longrightarrow> estado (fst r) \<noteq> ''error'' \<and> snd r = n)"
  unfolding r_def tras_pico_def tras_fin_de_semana_def
  by (auto simp add: generarLectura_def Let_def)

theorem regla_error_witness:
  "activo punto_N1 \<and> \<not> activo punto_N2
   \<and> PROBABILIDAD_ERROR config_error_siempre = 1 \<and> PROBABILIDAD_ERROR config_error_nunca = 0
   \<and> 0 \<le> Math_random entorno_prueba 0 \<and> Math_random entorno_prueba 0 < 1
   \<and> generarLectura entorno_prueba config_error_siempre punto_N1 1735743600000 0 =
        (\<lparr> id_punto = ''N1'', estado = ''error'', consumo_kwh = 0,
           fecha = 1735743600000 \<rparr>, 1)
   \<and> estado (fst (generarLectura entorno_prueba config_error_nunca punto_N1 1735743600000 0))
        = ''activo''
   \<and> snd (generarLectura entorno_prueba config_error_nunca punto_N1 1735743600000 0) = 2
   \<and> snd (generarLectura entorno_prueba config_error_siempre punto_N2 1735743600000 0) = 0"
  using regla_error [of punto_N1 entorno_prueba config_error_siempre 1735743600000 0]
    regla_error [of punto_N1 entorno_prueba config_error_nunca 1735743600000 0]
    regla_error [of punto_N2 entorno_prueba config_error_siempre 1735743600000 0]
  by (simp add: punto_N1_def punto_N2_def entorno_prueba_def config_error_siempre_def
      config_error_nunca_def CONFIG_inicial_def)




section \<open>Properties of the point loader\<close>

lemma mapear_doc_activo:
  "propiedad (mapear_doc ent d) ''activo'' = js_nullish (campo (snd d) ''activo'') (JBool True)"
  by (simp add: mapear_doc_def propiedad_def Let_def)

lemma mapear_doc_nombre:
  "propiedad (mapear_doc ent d) ''nombre'' =
     js_or (campo (snd d) ''nombre'') (JStr (''Punto '' @ ToString ent (campo (snd d) ''id'')))"
  by (simp add: mapear_doc_def propiedad_def Let_def)

lemma mapear_doc_consumo:
  "propiedad (mapear_doc ent d) ''consumo_base_kwh'' =
     js_or (campo (snd d) ''consumo_base_kwh'') (JNum 5)"
  by (simp add: mapear_doc_def propiedad_def Let_def)

lemma mapear_doc_potencia:
  "propiedad (mapear_doc ent d) ''potencia_base_w'' =
     js_or (campo (snd d) ''potencia_base_w'') (JNum 500)"
  by (simp add: mapear_doc_def propiedad_def Let_def)

text \<open>
  C10, as the code has it.  \<^verbatim>\<open>||\<close> replaces falsy values only: a stored
  \<open>consumo_base_kwh\<close> of \<open>-3\<close> is truthy and is returned as it is, so the returned point
  does not satisfy \<open>consumo_base_kwh > 0\<close>.
\<close>

theorem obtenerPuntos_positivo_counterexample:
  "propiedad (obtenerPuntos entorno_prueba [doc_negativo] ! 0) ''consumo_base_kwh'' = JNum (- 3)
   \<and> \<not> numero_positivo
         (propiedad (obtenerPuntos entorno_prueba [doc_negativo] ! 0) ''consumo_base_kwh'')"
  by (simp add: obtenerPuntos_def mapear_doc_def propiedad_def campo_def js_or_def
      doc_negativo_def)

text \<open>
  C10, amended.  For every document mapped by \<open>obtenerPuntos\<close>: \<open>activo\<close> is \<open>true\<close> when
  the stored field is absent or null and the stored value otherwise; \<open>nombre\<close> is
  \<open>"Punto <id>"\<close> when the stored name is falsy; \<open>consumo_base_kwh\<close> is 5 and
  \<open>potencia_base_w\<close> is 500 when the stored value is falsy (so a stored 0 becomes 5), and
  a truthy stored value is returned unchanged.  Hence each of the two base values
  returned is a positive number whenever the stored one is falsy or a positive number.
\<close>

theorem obtenerPuntos_valores_por_defecto:
  fixes ent :: entorno and docs :: "docSnap list" and i :: nat
  defines "p \<equiv> obtenerPuntos ent docs ! i" and "data \<equiv> snd (docs ! i)"
  assumes "i < length docs"
  shows "propiedad p ''activo'' =
           (if campo data ''activo'' = JUndefined \<or> campo data ''activo'' = JNull
            then JBool True else campo data ''activo'')
       \<and> propiedad p ''nombre'' =
           (if truthy (campo data ''nombre'') then campo data ''nombre''
            else JStr (''Punto '' @ ToString ent (campo data ''id'')))
       \<and> propiedad p ''consumo_base_kwh'' =
           (if truthy (campo data ''consumo_base_kwh'') then campo data ''consumo_base_kwh''
            else JNum 5)
       \<and> propiedad p ''potencia_base_w'' =
           (if truthy (campo data ''potencia_base_w'') then campo data ''potencia_base_w''
            else JNum 500)
       \<and> (campo data ''consumo_base_kwh'' = JNum 0 \<longrightarrow>
             propiedad p ''consumo_base_kwh'' = JNum 5)
       \<and> (\<not> truthy (campo data ''consumo_base_kwh'')
              \<or> numero_positivo (campo data ''consumo_base_kwh'')
            \<longrightarrow> numero_positivo (propiedad p ''consumo_base_kwh''))
       \<and> (\<not> truthy (campo data ''potencia_base_w'')
              \<or> numero_positivo (campo data ''potencia_base_w'')
            \<longrightarrow> numero_positivo (propiedad p ''potencia_base_w''))"
proof -
  have pa: "propiedad p k = propiedad (mapear_doc ent (docs ! i)) k" for k
    using assms by (simp add: obtenerPuntos_def)
  have pos: "numero_positivo v \<Longrightarrow> truthy v" for v
    by (cases v) simp_all
  show ?thesis
    unfolding pa mapear_doc_activo mapear_doc_nombre mapear_doc_consumo mapear_doc_potencia
    by (auto simp add: js_or_def js_nullish_def data_def dest: pos)
qed

theorem obtenerPuntos_valores_por_defecto_witness:
  "(0::nat) < length [doc_cero]
   \<and> campo (snd ([doc_cero] ! 0)) ''consumo_base_kwh'' = JNum 0
   \<and> \<not> truthy (campo (snd ([doc_cero] ! 0)) ''potencia_base_w'')
   \<and> propiedad (obtenerPuntos entorno_prueba [doc_cero] ! 0) ''activo'' = JBool True
   \<and> propiedad (obtenerPuntos entorno_prueba [doc_cero] ! 0) ''nombre'' = JStr ''Punto N7''
   \<and> propiedad (obtenerPuntos entorno_prueba [doc_cero] ! 0) ''consumo_base_kwh'' = JNum 5
   \<and> propiedad (obtenerPuntos entorno_prueba [doc_cero] ! 0) ''potencia_base_w'' = JNum 500
   \<and> numero_positivo (propiedad (obtenerPuntos entorno_prueba [doc_cero] ! 0)
                                 ''consumo_base_kwh'')
   \<and> numero_positivo (propiedad (obtenerPuntos entorno_prueba [doc_cero] ! 0)
                                 ''potencia_base_w'')"
proof -
  have c: "campo (snd doc_cero) ''activo'' = JUndefined"
    "campo (snd doc_cero) ''nombre'' = JUndefined"
    "campo (snd doc_cero) ''id'' = JStr ''N7''"
    "campo (snd doc_cero) ''consumo_base_kwh'' = JNum 0"
    "campo (snd doc_cero) ''potencia_base_w'' = JUndefined"
    by (simp_all add: campo_def doc_cero_def)
  show ?thesis
    using obtenerPuntos_valores_por_defecto [of 0 "[doc_cero]" entorno_prueba]
    by (simp add: c)
qed

section \<open>Properties of a cycle\<close>

lemma enviarLectura_campos:
  "enviarLectura ent l w = (ok, w1) \<Longrightarrow>
     sorteos w1 = sorteos w \<and> envios w1 = envios w + 1 \<and> consola w1 = consola w"
  by (auto simp add: enviarLectura_def split: if_splits)

lemma ciclo_puntos_marco:
  "ciclo_puntos ent cfg t ps l s = (l1, s1) \<Longrightarrow>
     corriendo s1 = corriendo s \<and> intervalo s1 = intervalo s \<and> pendientes s1 = pendientes s
     \<and> config s1 = config s \<and> puntos s1 = puntos s \<and> ciclos s1 = ciclos s
     \<and> lecturas s1 = lecturas s"
proof (induction ps arbitrary: l s)
  case Nil
  then show ?case by simp
next
  case (Cons p ps)
  then show ?case
    by (fastforce split: prod.splits bool.splits)
qed

lemma ejecutarCiclo_marco:
  "corriendo (ejecutarCiclo ent cfg t s) = corriendo s"
  "intervalo (ejecutarCiclo ent cfg t s) = intervalo s"
  "pendientes (ejecutarCiclo ent cfg t s) = pendientes s"
  "config (ejecutarCiclo ent cfg t s) = config s"
  "puntos (ejecutarCiclo ent cfg t s) = puntos s"
  "ciclos (ejecutarCiclo ent cfg t s) = ciclos s @ [t]"
  by (auto simp add: ejecutarCiclo_def split: prod.splits dest!: ciclo_puntos_marco)

lemma ciclo_puntos_intenta_todos:
  "ciclo_puntos ent cfg t ps l s = (l1, s1) \<Longrightarrow>
     envios (mundo s1) = envios (mundo s) + length ps"
proof (induction ps arbitrary: l s)
  case Nil
  then show ?case by simp
next
  case (Cons p ps)
  then show ?case
    by (fastforce simp add: enviarLectura_def split: prod.splits bool.splits if_splits)
qed

lemma cicloLecturas_intenta_todos:
  "envios (cicloLecturas ent cfg ps t w) = envios w + length ps"
proof (induction ps arbitrary: w)
  case Nil
  then show ?case by simp
next
  case (Cons p ps)
  then show ?case
    by (auto simp add: enviarLectura_def split: prod.splits bool.splits if_splits)
qed

text \<open>
  C9.  In \<^verbatim>\<open>ejecutarCiclo\<close> and \<^verbatim>\<open>cicloLecturas\<close> a rejected write is caught, reported
  for its point, and the next point follows.  The batch loop of \<^verbatim>\<open>ejecutarHistorico\<close>
  has no \<^verbatim>\<open>try/catch\<close>: with the write for \<open>N1\<close> rejected at the first instant, the run
  ends in the fatal-error exit after one batch header, nothing is stored and \<open>N2\<close> is
  never read, whereas \<^verbatim>\<open>cicloLecturas\<close> on the same input reports \<open>N1\<close> and stores the
  reading of \<open>N2\<close>.
\<close>

theorem historico_cli_aborta:
  "map_option fst (ejecutarHistorico entorno_rechazo config_rango 0 [punto_N1, punto_N2]
                     mundo_inicial) = Some ErrorFatal
   \<and> map_option (almacen \<circ> snd)
        (ejecutarHistorico entorno_rechazo config_rango 0 [punto_N1, punto_N2] mundo_inicial)
       = Some []
   \<and> map_option (instantes \<circ> consola \<circ> snd)
        (ejecutarHistorico entorno_rechazo config_rango 0 [punto_N1, punto_N2] mundo_inicial)
       = Some [1735711200000]
   \<and> almacen (cicloLecturas entorno_rechazo config_rango [punto_N1, punto_N2] 1735711200000
                 mundo_inicial)
       = [\<lparr> id_punto = ''N2'', estado = ''inactivo'', consumo_kwh = 0,
            fecha = 1735711200000 \<rparr>]
   \<and> consola (cicloLecturas entorno_rechazo config_rango [punto_N1, punto_N2] 1735711200000
                 mundo_inicial)
       = [LineaError ''N1'',
          LineaLectura \<lparr> id_punto = ''N2'', estado = ''inactivo'', consumo_kwh = 0,
                         fecha = 1735711200000 \<rparr>]"
proof -
  have c: "FECHA_INICIO config_rango = Some ''2025-01-01 00:00:00''"
    "FECHA_FIN config_rango = Some ''2025-01-01 03:00:00''"
    "PROBABILIDAD_ERROR config_rango = 1 / 50"
    by (simp_all add: config_rango_def CONFIG_inicial_def)
  have p: "parsearFecha_config entorno_rechazo (Some ''2025-01-01 00:00:00'') = Some (Some 1735711200000)"
    "parsearFecha_config entorno_rechazo (Some ''2025-01-01 03:00:00'') = Some (Some 1735722000000)"
    by (simp_all add: parsearFecha_config_def entorno_rechazo_def entorno_prueba_def)
  have r: "rechaza entorno_rechazo 0" "\<not> rechaza entorno_rechazo (Suc 0)"
    "Math_random entorno_rechazo 0 = 1 / 2"
    by (simp_all add: entorno_rechazo_def entorno_prueba_def)
  have a: "activo punto_N1" "\<not> activo punto_N2" "punto_id punto_N1 = ''N1''"
    "punto_id punto_N2 = ''N2''"
    by (simp_all add: punto_N1_def punto_N2_def)
  have g1: "generarLectura entorno_rechazo config_rango punto_N1 1735711200000 0
              = (\<lparr> id_punto = ''N1'', estado = ''activo'', consumo_kwh = 1705 / 100,
                   fecha = 1735711200000 \<rparr>, 2)"
    by (simp add: generarLectura_def Let_def punto_N1_def entorno_rechazo_def
        entorno_prueba_def config_rango_def CONFIG_inicial_def getDay_def aritmetica_exacta floor_eq_iff)
  have g2: "generarLectura entorno_rechazo config_rango punto_N2 1735711200000 n
              = (\<lparr> id_punto = ''N2'', estado = ''inactivo'', consumo_kwh = 0,
                   fecha = 1735711200000 \<rparr>, n)" for n
    using a by (simp add: generarLectura_def)
  have h: "ejecutarHistorico entorno_rechazo config_rango 0 [punto_N1, punto_N2] mundo_inicial
             = Some (ErrorFatal, \<lparr> sorteos = 2, envios = 1, almacen = [],
                                   consola = [LineaLote 1 1735711200000] \<rparr>)"
    unfolding ejecutarHistorico_def c p
    by (subst bucle_historico.simps)
       (simp add: g1 enviarLectura_def r mundo_inicial_def)
  have k: "cicloLecturas entorno_rechazo config_rango [punto_N1, punto_N2] 1735711200000
             mundo_inicial
           = \<lparr> sorteos = 2, envios = 2,
               almacen = [\<lparr> id_punto = ''N2'', estado = ''inactivo'', consumo_kwh = 0,
                            fecha = 1735711200000 \<rparr>],
               consola = [LineaError ''N1'',
                          LineaLectura \<lparr> id_punto = ''N2'', estado = ''inactivo'',
                                         consumo_kwh = 0, fecha = 1735711200000 \<rparr>] \<rparr>"
    by (simp add: g1 g2 enviarLectura_def r a mundo_inicial_def)
  show ?thesis
    unfolding h k by simp
qed

section \<open>Properties of the server\<close>

lemma fechas_prueba:
  "parsearFecha entorno_prueba (Some ''2025-01-01 00:00:00'') = Some 1735711200000"
  "parsearFecha entorno_prueba (Some ''2025-01-01 03:00:00'') = Some 1735722000000"
  "parsearFecha_config entorno_prueba (Some ''2025-01-01 00:00:00'') = Some (Some 1735711200000)"
  "parsearFecha_config entorno_prueba (Some ''2025-01-01 03:00:00'') = Some (Some 1735722000000)"
  by (simp_all add: parsearFecha_def parsearFecha_config_def trim_def es_blanco_def
      entorno_prueba_def)

lemma config_rango_campos:
  "FECHA_INICIO config_rango = Some ''2025-01-01 00:00:00''"
  "FECHA_FIN config_rango = Some ''2025-01-01 03:00:00''"
  "INCREMENTO_TIEMPO_MS config_rango = 3600000"
  by (simp_all add: config_rango_def CONFIG_inicial_def)

text \<open>
  The readings of \<open>N1\<close> and \<open>N2\<close> on Wednesday 2025-01-01 under \<open>entorno_prueba\<close>, at any
  hour and from any even number of draws.
\<close>

lemma lectura_N1_miercoles:
  assumes "even n" and "1735711200000 \<le> t" and "t < 1735797600000"
  shows "generarLectura entorno_prueba CONFIG_inicial punto_N1 t n =
           (\<lparr> id_punto = ''N1'', estado = ''activo'', consumo_kwh = 1705 / 100,
              fecha = t \<rparr>, n + 2)"
proof -
  have "(t - 21600000) div 86400000 = 20089"
    using assms(2,3) by (intro int_div_pos_eq [where r = "t - 21600000 - 20089 * 86400000"])
      simp_all
  then have d: "getDay entorno_prueba t = 3"
    by (simp add: getDay_def entorno_prueba_def)
  have e: "binary64 entorno_prueba = exacto" "Math_random entorno_prueba n = 1 / 2"
    "Math_random entorno_prueba (Suc n) = 3 / 4"
    using assms(1) by (simp_all add: entorno_prueba_def)
  show ?thesis
    by (simp add: generarLectura_def Let_def d e punto_N1_def CONFIG_inicial_def
        aritmetica_exacta floor_eq_iff)
qed

lemma lectura_N2_siempre:
  "generarLectura entorno_prueba CONFIG_inicial punto_N2 t n =
     (\<lparr> id_punto = ''N2'', estado = ''inactivo'', consumo_kwh = 0, fecha = t \<rparr>, n)"
  by (simp add: generarLectura_def punto_N2_def)

lemma sin_rechazo_prueba: "\<not> rechaza entorno_prueba k"
  by (simp add: entorno_prueba_def)

lemma servidor_corriendo_alcanzado:
  "paso entorno_prueba CONFIG_inicial (Iniciar True 1735722000000) servidor_parado
     = servidor_corriendo"
  by (simp add: servidor_parado_def servidor_corriendo_def api_iniciar_def arrancar_def
      iniciarModoHistorico_def procesarLote_def ejecutarCiclo_def Let_def
      config_rango_campos fechas_prueba lectura_N1_miercoles lectura_N2_siempre
      lectura_N1_def lectura_N2_def enviarLectura_def sin_rechazo_prueba mundo_inicial_def)

text \<open>
  The guard of the start request: with \<open>corriendo\<close> set the request is answered with
  \<open>success = false\<close> and nothing changes.
\<close>

lemma iniciar_con_corriendo:
  assumes "corriendo s" and "\<not> caido s"
  shows "snd (api_iniciar ent cfg autenticado ahora s) = s"
    and "map_option success (fst (api_iniciar ent cfg autenticado ahora s)) = Some False"
  using assms by (simp_all add: api_iniciar_def)

text \<open>
  The stop request: once \<open>corriendo\<close> is clear and no interval is live, timeouts, interval
  ticks and further stops run no cycle, as long as no start request is made or resumed.
\<close>

lemma paso_detenido:
  assumes "\<not> corriendo s" and "\<not> intervalo s" and "huerfanos s = 0" and "\<not> es_inicio e"
  shows "\<not> corriendo (paso ent cfg e s) \<and> \<not> intervalo (paso ent cfg e s)
       \<and> huerfanos (paso ent cfg e s) = 0
       \<and> totalEnviadas (paso ent cfg e s) = totalEnviadas s
       \<and> mundo (paso ent cfg e s) = mundo s
       \<and> ciclos (paso ent cfg e s) = ciclos s"
  using assms
  by (cases e) (simp_all add: detenerSimulador_def procesarLote_def)

lemma pasos_detenido:
  assumes "\<not> corriendo s" and "\<not> intervalo s" and "huerfanos s = 0"
    and "\<forall>e \<in> set evs. \<not> es_inicio e"
  shows "\<not> corriendo (pasos ent cfg evs s)
       \<and> totalEnviadas (pasos ent cfg evs s) = totalEnviadas s
       \<and> mundo (pasos ent cfg evs s) = mundo s
       \<and> ciclos (pasos ent cfg evs s) = ciclos s"
  using assms
proof (induction evs arbitrary: s)
  case Nil
  then show ?case by simp
next
  case (Cons e evs)
  have p: "\<not> corriendo (paso ent cfg e s) \<and> \<not> intervalo (paso ent cfg e s)
       \<and> huerfanos (paso ent cfg e s) = 0
       \<and> totalEnviadas (paso ent cfg e s) = totalEnviadas s
       \<and> mundo (paso ent cfg e s) = mundo s
       \<and> ciclos (paso ent cfg e s) = ciclos s"
    using Cons.prems by (intro paso_detenido) simp_all
  have "\<not> corriendo (pasos ent cfg evs (paso ent cfg e s))
       \<and> totalEnviadas (pasos ent cfg evs (paso ent cfg e s)) = totalEnviadas (paso ent cfg e s)
       \<and> mundo (pasos ent cfg evs (paso ent cfg e s)) = mundo (paso ent cfg e s)
       \<and> ciclos (pasos ent cfg evs (paso ent cfg e s)) = ciclos (paso ent cfg e s)"
    using Cons.prems p by (intro Cons.IH) simp_all
  with p show ?case by simp
qed

lemma detener_sin_reinicio:
  assumes "\<not> caido s" and "huerfanos s = 0" and "\<forall>e \<in> set evs. \<not> es_inicio e"
  shows "totalEnviadas (pasos ent cfg (Detener # evs) s) = totalEnviadas s
       \<and> mundo (pasos ent cfg (Detener # evs) s) = mundo s
       \<and> ciclos (pasos ent cfg (Detener # evs) s) = ciclos s"
proof -
  have d: "\<not> corriendo (detenerSimulador s)" "\<not> intervalo (detenerSimulador s)"
    "huerfanos (detenerSimulador s) = 0"
    "totalEnviadas (detenerSimulador s) = totalEnviadas s"
    "mundo (detenerSimulador s) = mundo s" "ciclos (detenerSimulador s) = ciclos s"
    using assms(2) by (simp_all add: detenerSimulador_def)
  show ?thesis
    using pasos_detenido [OF d(1) d(2) d(3) assms(3), of ent cfg] d assms(1) by simp
qed

text \<open>
  C7.  \<^verbatim>\<open>detenerSimulador\<close> clears \<open>corriendo\<close> and the interval, and leaves the pending
  \<^verbatim>\<open>setTimeout(procesarLote, 100)\<close> alone; \<^verbatim>\<open>procesarLote\<close> looks at the one shared flag
  when it fires.  So a stop in the pause keeps the stopped run from its next step only
  while the flag stays clear.  Here a run has done the 00:00 cycle and its 01:00 step
  is pending.  A stop arrives in the pause, then a start: the start is accepted and
  runs the 00:00 cycle of a new run.  Then the timeout of the stopped run fires: it
  finds the flag set, runs its 01:00 cycle, raising \<open>totalEnviadas\<close> from 4 to 6, and
  schedules its 02:00 step.  Two runs go on.  When the stop and the start arrive one
  pause later, the stopped run has its 02:00 step pending and the new run has only done
  00:00: the cycle at 02:00 that follows is the stopped run's.
\<close>

theorem detener_y_reiniciar_en_pausa:
  "pendientes servidor_corriendo
     = [\<lparr> fechaActual = 1735714800000, fechaFin = 1735722000000, incremento = 3600000,
          lote = 1, totalLotes = 3 \<rparr>]
   \<and> totalEnviadas servidor_corriendo = 2
   \<and> ciclos servidor_corriendo = [1735711200000]
   \<and> totalEnviadas (pasos entorno_prueba CONFIG_inicial
        [Detener, Iniciar True 1735722000000] servidor_corriendo) = 4
   \<and> ciclos (pasos entorno_prueba CONFIG_inicial
        [Detener, Iniciar True 1735722000000] servidor_corriendo)
       = [1735711200000, 1735711200000]
   \<and> pendientes (pasos entorno_prueba CONFIG_inicial
        [Detener, Iniciar True 1735722000000] servidor_corriendo) ! 0
       = \<lparr> fechaActual = 1735714800000, fechaFin = 1735722000000, incremento = 3600000,
           lote = 1, totalLotes = 3 \<rparr>
   \<and> totalEnviadas (pasos entorno_prueba CONFIG_inicial
        [Detener, Iniciar True 1735722000000, Temporizador 0] servidor_corriendo) = 6
   \<and> ciclos (pasos entorno_prueba CONFIG_inicial
        [Detener, Iniciar True 1735722000000, Temporizador 0] servidor_corriendo)
       = [1735711200000, 1735711200000, 1735714800000]
   \<and> map fechaActual (pendientes (pasos entorno_prueba CONFIG_inicial
        [Detener, Iniciar True 1735722000000, Temporizador 0] servidor_corriendo))
       = [1735714800000, 1735718400000]
   \<and> ciclos (pasos entorno_prueba CONFIG_inicial
        [Temporizador 0, Detener, Iniciar True 1735722000000] servidor_corriendo)
       = [1735711200000, 1735714800000, 1735711200000]
   \<and> map fechaActual (pendientes (pasos entorno_prueba CONFIG_inicial
        [Temporizador 0, Detener, Iniciar True 1735722000000] servidor_corriendo))
       = [1735718400000, 1735714800000]
   \<and> totalEnviadas (pasos entorno_prueba CONFIG_inicial
        [Temporizador 0, Detener, Iniciar True 1735722000000, Temporizador 0]
        servidor_corriendo) = 8
   \<and> ciclos (pasos entorno_prueba CONFIG_inicial
        [Temporizador 0, Detener, Iniciar True 1735722000000, Temporizador 0]
        servidor_corriendo)
       = [1735711200000, 1735714800000, 1735711200000, 1735718400000]"
  by (simp add: servidor_corriendo_def detenerSimulador_def api_iniciar_def arrancar_def
      iniciarModoHistorico_def procesarLote_def ejecutarCiclo_def Let_def
      config_rango_campos fechas_prueba lectura_N1_miercoles lectura_N2_siempre
      enviarLectura_def sin_rechazo_prueba)

text \<open>Without the start in between, the timeout of the stopped run does nothing.\<close>

lemma detener_en_pausa_prueba:
  "totalEnviadas (pasos entorno_prueba CONFIG_inicial [Detener, Temporizador 0]
                    servidor_corriendo) = 2
   \<and> ciclos (pasos entorno_prueba CONFIG_inicial [Detener, Temporizador 0]
               servidor_corriendo) = [1735711200000]
   \<and> pendientes (pasos entorno_prueba CONFIG_inicial [Detener, Temporizador 0]
                   servidor_corriendo) = []"
  by (simp add: servidor_corriendo_def detenerSimulador_def procesarLote_def)

text \<open>
  C8.  The guard answers \<open>success = false\<close> when \<open>corriendo\<close> is set.  But the flag is set
  only after \<^verbatim>\<open>await obtenerPuntos()\<close>, and it is cleared by a stop while the stopped run
  still has a step pending.  Two start requests that arrive before any point is loaded
  are both suspended at the \<^verbatim>\<open>await\<close>, neither is refused, both are answered with
  \<open>success = true\<close>, and each starts a run: two runs go on, both from 00:00.  A stop
  followed by a start in the pause leaves two runs as well.
\<close>

theorem inicios_solapados:
  "\<not> corriendo servidor_vacio
   \<and> fst (api_iniciar entorno_prueba CONFIG_inicial True 1735722000000 servidor_vacio) = None
   \<and> fst (api_iniciar entorno_prueba CONFIG_inicial True 1735722000001
            (pasos entorno_prueba CONFIG_inicial [Iniciar True 1735722000000] servidor_vacio))
       = None
   \<and> fst (reanudar_iniciar entorno_prueba CONFIG_inicial (Some [punto_N1, punto_N2])
            1735722000002
            (pasos entorno_prueba CONFIG_inicial
               [Iniciar True 1735722000000, Iniciar True 1735722000001] servidor_vacio))
       = Some \<lparr> codigo = 200, success = True \<rparr>
   \<and> fst (reanudar_iniciar entorno_prueba CONFIG_inicial (Some [punto_N1, punto_N2])
            1735722000003
            (pasos entorno_prueba CONFIG_inicial
               [Iniciar True 1735722000000, Iniciar True 1735722000001,
                Cargados (Some [punto_N1, punto_N2]) 1735722000002] servidor_vacio))
       = Some \<lparr> codigo = 200, success = True \<rparr>
   \<and> activas (pasos entorno_prueba CONFIG_inicial
        [Iniciar True 1735722000000, Iniciar True 1735722000001,
         Cargados (Some [punto_N1, punto_N2]) 1735722000002,
         Cargados (Some [punto_N1, punto_N2]) 1735722000003] servidor_vacio) = 2
   \<and> ciclos (pasos entorno_prueba CONFIG_inicial
        [Iniciar True 1735722000000, Iniciar True 1735722000001,
         Cargados (Some [punto_N1, punto_N2]) 1735722000002,
         Cargados (Some [punto_N1, punto_N2]) 1735722000003] servidor_vacio)
       = [1735711200000, 1735711200000]
   \<and> activas servidor_corriendo = 1
   \<and> activas (pasos entorno_prueba CONFIG_inicial
        [Detener, Iniciar True 1735722000000] servidor_corriendo) = 2"
  by (simp add: servidor_vacio_def servidor_parado_def servidor_corriendo_def activas_def
      detenerSimulador_def api_iniciar_def reanudar_iniciar_def arrancar_def
      iniciarModoHistorico_def procesarLote_def ejecutarCiclo_def Let_def
      config_rango_campos fechas_prueba lectura_N1_miercoles lectura_N2_siempre
      enviarLectura_def sin_rechazo_prueba mundo_inicial_def)

section \<open>Properties of the historical run\<close>

lemma visitas_paso:
  fixes c inc :: int
  assumes "0 < inc" and "c \<le> f"
  shows "nat ((f - c) div inc + 1) = Suc (nat ((f - (c + inc)) div inc + 1))"
proof -
  have e: "f - (c + inc) = (f - c) + (- 1) * inc" by simp
  have "(f - (c + inc)) div inc = - 1 + (f - c) div inc"
    unfolding e using assms(1) by (subst div_mult_self1) simp_all
  moreover have "0 \<le> (f - c) div inc"
    using assms by (simp add: pos_imp_zdiv_nonneg_iff)
  ultimately show ?thesis by simp
qed

lemma upt_0_Suc: "[0..<Suc n] = 0 # map Suc [0..<n]"
  by (simp add: upt_conv_Cons map_Suc_upt del: upt_Suc)

lemma visitas_Suc:
  fixes c inc :: int
  shows "map (\<lambda>k. c + int k * inc) [0..<Suc n]
           = c # map (\<lambda>k. (c + inc) + int k * inc) [0..<n]"
  unfolding upt_0_Suc by (simp add: comp_def algebra_simps)

lemma visitas_vacia:
  fixes c inc :: int
  assumes "0 < inc" and "f < c"
  shows "nat ((f - c) div inc + 1) = 0"
proof -
  have "(f - c) div inc < 0"
    using assms by (simp add: pos_imp_zdiv_neg_iff)
  then show ?thesis by simp
qed

lemma agotar_cadena:
  assumes "n = nat ((fechaFin h - fechaActual h) div incremento h + 1)"
    and "corriendo s" and "pendientes s = [h]" and "0 < incremento h"
  shows "\<exists>s'. agotar ent cfg s = Some s'
            \<and> ciclos s' = ciclos s @ map (\<lambda>k. fechaActual h + int k * incremento h) [0..<n]
            \<and> \<not> corriendo s' \<and> pendientes s' = []"
  using assms
proof (induction n arbitrary: h s)
  case 0
  have gt: "fechaFin h < fechaActual h"
  proof (rule ccontr)
    assume "\<not> fechaFin h < fechaActual h"
    then have "fechaActual h \<le> fechaFin h" by simp
    from visitas_paso [OF "0.prems"(4) this] "0.prems"(1) show False by simp
  qed
  let ?s1 = "paso ent cfg (Temporizador 0) s"
  have s1: "pendientes ?s1 = []" "ciclos ?s1 = ciclos s" "\<not> corriendo ?s1"
    using gt "0.prems"(3) by (simp_all add: procesarLote_def detenerSimulador_def)
  have "agotar ent cfg s = agotar ent cfg ?s1"
    using "0.prems"(3) by (subst agotar.simps) simp
  also have "\<dots> = Some ?s1"
    using s1(1) by (subst agotar.simps) simp
  finally show ?case using s1 by simp
next
  case (Suc n)
  have le: "fechaActual h \<le> fechaFin h"
  proof (rule ccontr)
    assume "\<not> fechaActual h \<le> fechaFin h"
    then have "fechaFin h < fechaActual h" by simp
    from visitas_vacia [OF Suc.prems(4) this] Suc.prems(1) show False by simp
  qed
  let ?h1 = "h \<lparr> lote := lote h + 1, fechaActual := fechaActual h + incremento h \<rparr>"
  let ?s1 = "paso ent cfg (Temporizador 0) s"
  have s1: "pendientes ?s1 = [?h1]" "ciclos ?s1 = ciclos s @ [fechaActual h]" "corriendo ?s1"
    using le Suc.prems(2,3)
    by (simp_all add: procesarLote_def Let_def ejecutarCiclo_marco)
  have n: "n = nat ((fechaFin ?h1 - fechaActual ?h1) div incremento ?h1 + 1)"
    using visitas_paso [OF Suc.prems(4) le] Suc.prems(1) by simp
  have "0 < incremento ?h1" using Suc.prems(4) by simp
  from Suc.IH [OF n s1(3) s1(1) this]
  obtain s' where s': "agotar ent cfg ?s1 = Some s'"
    "ciclos s' = ciclos ?s1 @ map (\<lambda>k. fechaActual ?h1 + int k * incremento ?h1) [0..<n]"
    "\<not> corriendo s'" "pendientes s' = []"
    by blast
  have "agotar ent cfg s = agotar ent cfg ?s1"
    using Suc.prems(3) by (subst agotar.simps) simp
  moreover have "map (\<lambda>k. fechaActual h + int k * incremento h) [0..<Suc n]
        = fechaActual h # map (\<lambda>k. fechaActual ?h1 + int k * incremento ?h1) [0..<n]"
    by (simp only: visitas_Suc) simp
  ultimately show ?case
    using s' s1 by simp
qed

lemma instantes_append: "instantes (a @ b) = instantes a @ instantes b"
  by (induction a rule: instantes.induct) simp_all

lemma lecturas_lote_sin_rechazo:
  assumes "\<forall>k. \<not> rechaza ent k"
  shows "\<exists>w1. lecturas_lote ent cfg ps t tot w = Inr (tot + length ps, w1)
              \<and> instantes (consola w1) = instantes (consola w)"
proof (induction ps arbitrary: tot w)
  case Nil
  then show ?case by simp
next
  case (Cons p ps)
  obtain l n' where g: "generarLectura ent cfg p t (sorteos w) = (l, n')"
    by (cases "generarLectura ent cfg p t (sorteos w)")
  let ?w1 = "w \<lparr> sorteos := n', envios := envios w + 1, almacen := almacen w @ [l] \<rparr>"
  have e: "enviarLectura ent l (w \<lparr> sorteos := n' \<rparr>) = (True, ?w1)"
    using assms by (simp add: enviarLectura_def)
  from Cons.IH [of "tot + 1" "?w1 \<lparr> consola := consola ?w1 @ [LineaLectura l] \<rparr>"]
  show ?case
    by (simp add: g e instantes_append)
qed

lemma bucle_historico_visitas:
  assumes "n = nat ((ff - c) div INCREMENTO_TIEMPO_MS cfg + 1)"
    and "0 < INCREMENTO_TIEMPO_MS cfg" and "\<forall>k. \<not> rechaza ent k"
  shows "\<exists>tot' w'. bucle_historico ent cfg ps c ff lt tot w = Some (Completada tot', w')
            \<and> instantes (consola w') = instantes (consola w)
                 @ map (\<lambda>k. c + int k * INCREMENTO_TIEMPO_MS cfg) [0..<n]"
  using assms(1)
proof (induction n arbitrary: c lt tot w)
  case 0
  have gt: "ff < c"
  proof (rule ccontr)
    assume "\<not> ff < c"
    then have "c \<le> ff" by simp
    from visitas_paso [OF assms(2) this] "0.prems" show False by simp
  qed
  then show ?case
    by (subst bucle_historico.simps) simp
next
  case (Suc n)
  have le: "c \<le> ff"
  proof (rule ccontr)
    assume "\<not> c \<le> ff"
    then have "ff < c" by simp
    from visitas_vacia [OF assms(2) this] Suc.prems show False by simp
  qed
  let ?w0 = "w \<lparr> consola := consola w @ [LineaLote (lt + 1) c] \<rparr>"
  obtain w1 where w1: "lecturas_lote ent cfg ps c tot ?w0 = Inr (tot + length ps, w1)"
    "instantes (consola w1) = instantes (consola ?w0)"
    using lecturas_lote_sin_rechazo [OF assms(3)] by blast
  let ?w2 = "if BATCH_SIZE cfg \<noteq> 0 \<and> int (lt + 1) mod BATCH_SIZE cfg = 0
             then w1 \<lparr> consola := consola w1 @ [LineaPausa] \<rparr> else w1"
  have w2: "instantes (consola ?w2) = instantes (consola w) @ [c]"
    using w1(2) by (simp add: instantes_append)
  have n: "n = nat ((ff - (c + INCREMENTO_TIEMPO_MS cfg)) div INCREMENTO_TIEMPO_MS cfg + 1)"
    using visitas_paso [OF assms(2) le] Suc.prems by simp
  from Suc.IH [OF n, of "lt + 1" "tot + length ps" ?w2]
  obtain tot' w' where r:
    "bucle_historico ent cfg ps (c + INCREMENTO_TIEMPO_MS cfg) ff (lt + 1) (tot + length ps) ?w2
       = Some (Completada tot', w')"
    "instantes (consola w') = instantes (consola ?w2)
       @ map (\<lambda>k. (c + INCREMENTO_TIEMPO_MS cfg) + int k * INCREMENTO_TIEMPO_MS cfg) [0..<n]"
    by blast
  have "bucle_historico ent cfg ps c ff lt tot w = Some (Completada tot', w')"
    using le w1(1) r(1) by (subst bucle_historico.simps) simp
  then show ?case
    using r(2) w2 by (simp only: visitas_Suc) simp
qed

lemma ultima_visita:
  fixes fi ff inc :: int
  assumes "0 < inc" and "fi \<le> ff" and "inc dvd (ff - fi)"
  shows "last (map (\<lambda>k. fi + int k * inc) [0..<nat ((ff - fi) div inc + 1)]) = ff"
proof -
  have nn: "0 \<le> (ff - fi) div inc"
    using assms by (simp add: pos_imp_zdiv_nonneg_iff)
  then have "nat ((ff - fi) div inc + 1) = Suc (nat ((ff - fi) div inc))"
    by simp
  moreover have "(ff - fi) div inc * inc = ff - fi"
    using assms(3) by simp
  ultimately show ?thesis
    using nn by simp
qed

lemma visitas_crecientes:
  fixes fi inc :: int
  assumes "0 < inc"
  shows "sorted_wrt (<) (map (\<lambda>k. fi + int k * inc) [0..<n])"
  using assms by (simp add: sorted_wrt_map sorted_wrt_iff_nth_less)

lemma cuatro_visitas:
  "map (\<lambda>k. 1735711200000 + int k * 3600000) [0..<4]
     = [1735711200000, 1735714800000, 1735718400000, 1735722000000]"
proof -
  have "[0..<4] = [0, Suc 0, Suc (Suc 0), Suc (Suc (Suc 0))]"
    by (simp add: upt_rec)
  then show ?thesis by simp
qed

text \<open>
  C6.  With a positive step \<open>inc\<close>, start \<open>fi\<close> and end \<open>ff\<close>, a historical run that is
  left alone ends, and the instants at which it ran a cycle are exactly
  \<open>fi, fi + inc, fi + 2 inc, ...\<close> up to the last one not after \<open>ff\<close>, in increasing
  order, each once: the cursor starts at the start date, advances by the step after
  each cycle, and a step is refused only when the cursor is after \<open>ff\<close> (or, on the
  server, when \<open>corriendo\<close> has been cleared: \<^verbatim>\<open>procesarLote\<close> returns without a cycle in
  exactly these two cases).  So \<open>ff\<close> itself is visited when the step divides \<open>ff - fi\<close>.  This is shown for the server (\<^verbatim>\<open>iniciarModoHistorico\<close> followed by
  its timeouts) and for the command line (\<^verbatim>\<open>ejecutarHistorico\<close>, when no write is
  rejected).  For 2025-01-01 00:00:00 to 03:00:00 and a step of 3600000 ms the four
  instants 00:00, 01:00, 02:00 and 03:00 are visited.
\<close>

theorem historico_visita_fecha_fin:
  assumes "0 < inc"
  shows "(corriendo s \<and> pendientes s = []
            \<and> parsearFecha ent (FECHA_INICIO (config s)) = Some fi
            \<and> parsearFecha ent (FECHA_FIN (config s)) = Some ff
            \<and> INCREMENTO_TIEMPO_MS (config s) = inc
          \<longrightarrow> (\<exists>s'. agotar ent cfg (iniciarModoHistorico ent cfg ahora s) = Some s'
                  \<and> ciclos s' = ciclos s
                       @ map (\<lambda>k. fi + int k * inc) [0..<nat ((ff - fi) div inc + 1)]
                  \<and> pendientes s' = [] \<and> \<not> corriendo s'))
       \<and> (parsearFecha_config ent (FECHA_INICIO cfg) = Some (Some fi)
            \<and> parsearFecha_config ent (FECHA_FIN cfg) = Some (Some ff)
            \<and> INCREMENTO_TIEMPO_MS cfg = inc \<and> (\<forall>k. \<not> rechaza ent k)
          \<longrightarrow> (\<exists>n w'. ejecutarHistorico ent cfg ahora ps w = Some (Completada n, w')
                  \<and> instantes (consola w') = instantes (consola w)
                       @ map (\<lambda>k. fi + int k * inc) [0..<nat ((ff - fi) div inc + 1)]))
       \<and> sorted_wrt (<) (map (\<lambda>k. fi + int k * inc) [0..<nat ((ff - fi) div inc + 1)])
       \<and> (fi \<le> ff \<and> inc dvd (ff - fi)
          \<longrightarrow> last (map (\<lambda>k. fi + int k * inc) [0..<nat ((ff - fi) div inc + 1)]) = ff)
       \<and> ((fst (procesarLote ent cfg h0 s0) = None)
            = (\<not> corriendo s0 \<or> fechaFin h0 < fechaActual h0))"
proof (intro conjI impI)
  assume a: "corriendo s \<and> pendientes s = []
            \<and> parsearFecha ent (FECHA_INICIO (config s)) = Some fi
            \<and> parsearFecha ent (FECHA_FIN (config s)) = Some ff
            \<and> INCREMENTO_TIEMPO_MS (config s) = inc"
  let ?h = "\<lparr> fechaActual = fi, fechaFin = ff, incremento = inc, lote = 0,
               totalLotes = - ((- (ff - fi)) div inc) \<rparr>"
  let ?n = "nat ((ff - fi) div inc + 1)"
  have "s \<lparr> pendientes := pendientes s \<rparr> = s" by simp
  then have same: "s \<lparr> pendientes := [] \<rparr> = s" using a by simp
  have ini: "iniciarModoHistorico ent cfg ahora s = paso ent cfg (Temporizador 0) (s \<lparr> pendientes := [?h] \<rparr>)"
    using a assms by (simp add: iniciarModoHistorico_def Let_def same)
  have "agotar ent cfg (s \<lparr> pendientes := [?h] \<rparr>)
          = agotar ent cfg (paso ent cfg (Temporizador 0) (s \<lparr> pendientes := [?h] \<rparr>))"
    by (subst agotar.simps) simp
  moreover have "\<exists>s'. agotar ent cfg (s \<lparr> pendientes := [?h] \<rparr>) = Some s'
            \<and> ciclos s' = ciclos (s \<lparr> pendientes := [?h] \<rparr>)
                 @ map (\<lambda>k. fechaActual ?h + int k * incremento ?h) [0..<?n]
            \<and> \<not> corriendo s' \<and> pendientes s' = []"
    using a assms by (intro agotar_cadena) simp_all
  ultimately show "\<exists>s'. agotar ent cfg (iniciarModoHistorico ent cfg ahora s) = Some s'
                  \<and> ciclos s' = ciclos s
                       @ map (\<lambda>k. fi + int k * inc) [0..<nat ((ff - fi) div inc + 1)]
                  \<and> pendientes s' = [] \<and> \<not> corriendo s'"
    unfolding ini by auto
next
  assume b: "parsearFecha_config ent (FECHA_INICIO cfg) = Some (Some fi)
            \<and> parsearFecha_config ent (FECHA_FIN cfg) = Some (Some ff)
            \<and> INCREMENTO_TIEMPO_MS cfg = inc \<and> (\<forall>k. \<not> rechaza ent k)"
  then have e: "ejecutarHistorico ent cfg ahora ps w = bucle_historico ent cfg ps fi ff 0 0 w"
    by (simp add: ejecutarHistorico_def)
  show "\<exists>n w'. ejecutarHistorico ent cfg ahora ps w = Some (Completada n, w')
                  \<and> instantes (consola w') = instantes (consola w)
                       @ map (\<lambda>k. fi + int k * inc) [0..<nat ((ff - fi) div inc + 1)]"
    unfolding e
    using bucle_historico_visitas [of "nat ((ff - fi) div inc + 1)" ff fi cfg ent ps 0 0 w] b assms
    by simp
next
  show "sorted_wrt (<) (map (\<lambda>k. fi + int k * inc) [0..<nat ((ff - fi) div inc + 1)])"
    using assms by (rule visitas_crecientes)
next
  assume "fi \<le> ff \<and> inc dvd (ff - fi)"
  then show "last (map (\<lambda>k. fi + int k * inc) [0..<nat ((ff - fi) div inc + 1)]) = ff"
    using assms by (simp add: ultima_visita)
next
  show "(fst (procesarLote ent cfg h0 s0) = None)
          = (\<not> corriendo s0 \<or> fechaFin h0 < fechaActual h0)"
    by (simp add: procesarLote_def Let_def)
qed

theorem historico_visita_fecha_fin_witness:
  "(0::int) < 3600000
   \<and> corriendo servidor_listo \<and> pendientes servidor_listo = []
   \<and> parsearFecha entorno_prueba (FECHA_INICIO (config servidor_listo)) = Some 1735711200000
   \<and> parsearFecha entorno_prueba (FECHA_FIN (config servidor_listo)) = Some 1735722000000
   \<and> INCREMENTO_TIEMPO_MS (config servidor_listo) = 3600000
   \<and> (\<exists>s'. agotar entorno_prueba config_rango
               (iniciarModoHistorico entorno_prueba config_rango 0 servidor_listo) = Some s'
           \<and> ciclos s' = [1735711200000, 1735714800000, 1735718400000, 1735722000000])
   \<and> (\<forall>k. \<not> rechaza entorno_prueba k)
   \<and> (\<exists>n w'. ejecutarHistorico entorno_prueba config_rango 0 [punto_N1, punto_N2] mundo_inicial
                 = Some (Completada n, w')
           \<and> instantes (consola w')
                 = [1735711200000, 1735714800000, 1735718400000, 1735722000000])"
proof -
  have c: "FECHA_INICIO config_rango = Some ''2025-01-01 00:00:00''"
    "FECHA_FIN config_rango = Some ''2025-01-01 03:00:00''"
    "INCREMENTO_TIEMPO_MS config_rango = 3600000"
    by (simp_all add: config_rango_def CONFIG_inicial_def)
  have s: "corriendo servidor_listo" "pendientes servidor_listo = []"
    "config servidor_listo = config_rango" "ciclos servidor_listo = []"
    by (simp_all add: servidor_listo_def)
  have r: "\<forall>k. \<not> rechaza entorno_prueba k"
    by (simp add: entorno_prueba_def)
  have m: "consola mundo_inicial = []"
    by (simp add: mundo_inicial_def)
  show ?thesis
    using historico_visita_fecha_fin [where inc = 3600000 and s = servidor_listo
        and ent = entorno_prueba and fi = 1735711200000 and ff = 1735722000000
        and cfg = config_rango and ahora = 0 and ps = "[punto_N1, punto_N2]"
        and w = mundo_inicial]
    by (auto simp add: c s r m fechas_prueba cuatro_visitas)
qed

end
